theory Spec2Isabelle
  imports Main "HOL-Library.Word" "HOL-Library.Sublist" "HOL-Library.Multiset"
begin

section \<open>The resource factory of dmResource (resource.cpp)\<close>

text \<open>
  A shallow embedding of the resource factory: the path canonicaliser, the type registry,
  the transport loader, \<open>Get\<close>/\<open>Release\<close>, \<open>ReloadResource\<close> and the reload-callback
  registry. Conventions:
  \<^item> a C string is a \<open>string\<close> (the characters before the terminating NUL);
  \<^item> a pointer, a function pointer included, is a \<open>nat\<close> address, \<open>0\<close> the null pointer;
  \<^item> \<open>uint32_t\<close> and \<open>uint64_t\<close> are \<open>32 word\<close> and \<open>64 word\<close>, so \<open>+\<close> and \<open>-\<close> wrap;
  \<^item> a \<open>dmHashTable\<close> is a map (\<open>Get\<close> looks up, \<open>Put\<close> stores, \<open>Erase\<close> removes), the
    capacity it was given is not modelled (the container is not part of resource.cpp);
  \<^item> a \<open>long\<close> is a \<open>64 word\<close> read as a signed number; its \<open>+\<close> wraps, which is what
    the usual compilers make of the signed overflow that C leaves undefined;
  \<^item> \<open>assert\<close> is kept: a failing assertion ends the call with \<open>Inl AssertionFailed\<close>;
  \<^item> the stream buffer is the list of its bytes; the archive block and the file block of
    \<open>LoadResource\<close> index it with a size they are given, and where that index is not in
    the list the write is outside the allocated buffer and ends the call with
    \<open>Inl OutOfBounds\<close>;
  \<^item> everything outside the factory (hash function, archive, HTTP client, file system,
    the handlers' callbacks) is a parameter, the record \<open>world\<close>; each call into it, and
    each log line, is recorded in the list of events the operation returns.
\<close>

subsection \<open>Result codes and log severities\<close>

text \<open>Modelled from the spec: the enumerations \<open>FactoryResult\<close>, \<open>CreateResult\<close> and
  \<open>ReloadResult\<close> are declared in resource.h, which is not among the sources. They have
  the enumerators that resource.cpp names and that sections 4.5 and 6 of the specification
  list.\<close>

datatype FactoryResult =
    FACTORY_RESULT_OK
  | FACTORY_RESULT_INVAL
  | FACTORY_RESULT_OUT_OF_RESOURCES
  | FACTORY_RESULT_ALREADY_REGISTERED
  | FACTORY_RESULT_RESOURCE_NOT_FOUND
  | FACTORY_RESULT_MISSING_FILE_EXTENSION
  | FACTORY_RESULT_UNKNOWN_RESOURCE_TYPE
  | FACTORY_RESULT_IO_ERROR
  | FACTORY_RESULT_STREAMBUFFER_TOO_SMALL
  | FACTORY_RESULT_NOT_LOADED
  | FACTORY_RESULT_UNKNOWN

datatype CreateResult =
    CREATE_RESULT_OK
  | CREATE_RESULT_OUT_OF_MEMORY
  | CREATE_RESULT_FORMAT_ERROR
  | CREATE_RESULT_CONSTANT_ERROR
  | CREATE_RESULT_UNKNOWN

datatype ReloadResult =
    RELOAD_RESULT_OK
  | RELOAD_RESULT_OUT_OF_MEMORY
  | RELOAD_RESULT_FORMAT_ERROR
  | RELOAD_RESULT_CONSTANT_ERROR
  | RELOAD_RESULT_NOT_FOUND
  | RELOAD_RESULT_LOAD_ERROR
  | RELOAD_RESULT_NOT_SUPPORTED
  | RELOAD_RESULT_UNKNOWN

text \<open>\<open>dmLog::Severity\<close> of log.h; \<open>dmLogWarning\<close> logs with \<open>LOG_SEVERITY_WARNING\<close>,
  \<open>dmLogError\<close> with \<open>LOG_SEVERITY_ERROR\<close> (the build without \<open>NDEBUG\<close>).\<close>

datatype Severity =
    LOG_SEVERITY_DEBUG
  | LOG_SEVERITY_USER_DEBUG
  | LOG_SEVERITY_INFO
  | LOG_SEVERITY_WARNING
  | LOG_SEVERITY_ERROR
  | LOG_SEVERITY_FATAL

text \<open>Modelled from the spec: \<open>dmHttpClient::Result\<close> is declared in dlib/http_client.h,
  which is not among the sources. \<open>LoadResource\<close> tells three cases apart: \<open>RESULT_OK\<close>,
  \<open>RESULT_NOT_200_OK\<close>, and any other failure.\<close>

datatype HttpClientResult =
    HTTP_RESULT_OK
  | HTTP_RESULT_NOT_200_OK
  | HTTP_RESULT_FAILED

text \<open>How a call can end without returning: a failed \<open>assert\<close>, the use of a dangling
  pointer, a write outside the stream buffer.\<close>

datatype fault = AssertionFailed | InvalidPointer | OutOfBounds

subsection \<open>The data model\<close>

type_synonym pointer = nat
type_synonym uint32_t = "32 word"
type_synonym uint64_t = "64 word"

text \<open>A \<open>long\<close> has 64 bits, as on the LP64 platforms; \<open>sint\<close> reads it, and \<open>LONG_MAX\<close>
  is \<open>2^63 - 1\<close>.\<close>

type_synonym long = "64 word"

record SResourceType =
  m_Extension :: string
  m_Context :: pointer
  m_CreateFunction :: pointer
  m_DestroyFunction :: pointer
  m_RecreateFunction :: pointer

text \<open>Modelled from the spec: \<open>SResourceDescriptor\<close> is declared in resource.h, which is
  not among the sources; the fields are those resource.cpp uses and section 3 of the
  specification lists. \<open>m_ResourceType\<close> points at an entry of the factory's
  \<open>m_ResourceTypes\<close> array: it is the entry's index. The reference count, the
  specification's unsigned integer, is a 32-bit counter.\<close>

record SResourceDescriptor =
  m_NameHash :: uint64_t
  m_Resource :: pointer
  m_ResourceType :: nat
  m_ReferenceCount :: uint32_t

record ResourceReloadedCallbackPair =
  m_Callback :: pointer
  m_UserData :: pointer

text \<open>The array \<open>m_ResourceTypes[MAX_RESOURCE_TYPES]\<close> with its \<open>m_ResourceTypesCount\<close> is
  the list of its first \<open>m_ResourceTypesCount\<close> entries. The three \<open>dmHashTable\<close>s are
  maps and the \<open>dmArray\<close> is a list (modelled from the spec: dlib/hashtable.h and
  dlib/array.h are not among the sources). The two tables that exist only
  with \<open>RESOURCE_FACTORY_FLAGS_RELOAD_SUPPORT\<close> are \<open>None\<close> when the pointer is null. Of
  \<open>m_UriParts\<close> only the path is read.\<close>

record SResourceFactory =
  m_Resources :: "uint64_t \<rightharpoonup> SResourceDescriptor"
  m_ResourceToHash :: "pointer \<rightharpoonup> uint64_t"
  m_ResourceHashToFilename :: "(uint64_t \<rightharpoonup> string) option"
  m_ResourceReloadedCallbacks :: "ResourceReloadedCallbackPair list option"
  m_ResourceTypes :: "SResourceType list"
  m_UriParts_Path :: string
  m_HttpClient :: bool
  m_StreamBuffer :: string
  m_StreamBufferSize :: uint32_t
  m_HttpContentLength :: uint32_t
  m_HttpTotalBytesStreamed :: uint32_t
  m_HttpStatus :: int
  m_HttpFactoryResult :: FactoryResult
  m_HttpServer :: bool
  m_BuiltinsArchive :: "(string \<times> string) list option"

definition RESOURCE_PATH_MAX :: nat where
  "RESOURCE_PATH_MAX = 1024"

definition MAX_RESOURCE_TYPES :: nat where
  "MAX_RESOURCE_TYPES = 128"

definition MAX_CALLBACKS :: nat where
  "MAX_CALLBACKS = 16"

subsection \<open>The world outside the factory\<close>

text \<open>A callback the HTTP client makes during one GET: \<open>HttpHeader\<close> with the status code,
  a key and a value, or \<open>HttpContent\<close> with the status code and a chunk of the body.\<close>

datatype http_callback =
    OnHeader int string string
  | OnContent int string

text \<open>An open file: the \<open>long\<close> that \<open>ftell\<close> returns after the seek to the end (the
  size of a regular file, \<open>-1\<close> when \<open>ftell\<close> fails, \<open>LONG_MAX\<close> for a directory on
  Linux), and the bytes \<open>fread\<close> delivers from the start of the file.\<close>

record FILE =
  ftell_end :: long
  fread_bytes :: string

text \<open>\<open>create_cb fn context buffer size name\<close> is the call of the create function at
  address \<open>fn\<close>: its result and the address it stores in the descriptor's \<open>m_Resource\<close>.
  \<open>recreate_cb\<close> is the call of a recreate function; it works on the typed object behind
  the descriptor, which is no part of the factory.\<close>

record world =
  dmHashBuffer64 :: "string \<Rightarrow> uint64_t"
  strtol :: "string \<Rightarrow> int"
  dmHttpClient_Get :: "string \<Rightarrow> http_callback list \<times> HttpClientResult"
  fopen :: "string \<Rightarrow> FILE option"
  create_cb :: "pointer \<Rightarrow> pointer \<Rightarrow> string \<Rightarrow> uint32_t \<Rightarrow> string \<Rightarrow> CreateResult \<times> pointer"
  recreate_cb :: "pointer \<Rightarrow> pointer \<Rightarrow> string \<Rightarrow> uint32_t \<Rightarrow> SResourceDescriptor \<Rightarrow> string \<Rightarrow> CreateResult"

text \<open>What an operation does outside the factory, in the order it does it. A log line
  carries its severity and its format string; a callback call carries the function called
  and its arguments (of the stream buffer, the first \<open>size\<close> bytes).\<close>

datatype event =
    Log Severity string
  | ArchiveFindEntry string
  | HttpGet string
  | FileOpen string
  | CallCreate pointer pointer string string
  | CallDestroy pointer pointer SResourceDescriptor
  | CallRecreate pointer pointer string SResourceDescriptor string
  | CallReloaded pointer pointer SResourceDescriptor string

subsection \<open>FindResourceType and GetCanonicalPath\<close>

fun FindResourceType_loop :: "SResourceType list \<Rightarrow> nat \<Rightarrow> string \<Rightarrow> nat option" where
  "FindResourceType_loop [] i extension = None"
| "FindResourceType_loop (rt # rts) i extension =
     (if extension = m_Extension rt then Some i
      else FindResourceType_loop rts (Suc i) extension)"

definition FindResourceType :: "SResourceFactory \<Rightarrow> string \<Rightarrow> nat option" where
  "FindResourceType factory extension =
     FindResourceType_loop (m_ResourceTypes factory) 0 extension"

text \<open>Modelled from the spec: the macro \<open>DM_SNPRINTF\<close> is defined in dlib/dstrings.h,
  which is not among the sources; it is \<open>snprintf\<close>, and the specification bounds the
  canonical name by \<open>PATH_MAX\<close>.
  \<open>DM_SNPRINTF(buf, n, "%s/%s", base_dir, relative_dir)\<close> is the formatted string, cut to
  the \<open>n - 1\<close> characters that fit the buffer before the terminating NUL.\<close>

definition DM_SNPRINTF :: "nat \<Rightarrow> string \<Rightarrow> string \<Rightarrow> string" where
  "DM_SNPRINTF n base_dir relative_dir = take (n - 1) (base_dir @ ''/'' @ relative_dir)"

text \<open>The copy loop of \<open>GetCanonicalPath\<close>: \<open>last_c\<close> is the character read before, the list
  the characters from \<open>source\<close> on, the result what is written through \<open>dest\<close>.\<close>

fun GetCanonicalPath_loop :: "char \<Rightarrow> string \<Rightarrow> string" where
  "GetCanonicalPath_loop last_c [] = []"
| "GetCanonicalPath_loop last_c (c # source) =
     (if c \<noteq> CHR ''/'' \<or> (c = CHR ''/'' \<and> last_c \<noteq> CHR ''/'')
      then c # GetCanonicalPath_loop c source
      else GetCanonicalPath_loop c source)"

definition GetCanonicalPath :: "string \<Rightarrow> string \<Rightarrow> string" where
  "GetCanonicalPath base_dir relative_dir =
     GetCanonicalPath_loop (CHR 0x00) (DM_SNPRINTF RESOURCE_PATH_MAX base_dir relative_dir)"

text \<open>The specification's words for the canonical name: every run of consecutive \<open>/\<close> is
  collapsed into a single \<open>/\<close>. This definition follows the specification, not the code; the
  two are compared below.\<close>

fun collapse_runs :: "string \<Rightarrow> string" where
  "collapse_runs (a # b # cs) =
     (if a = CHR ''/'' \<and> b = CHR ''/'' then collapse_runs (b # cs)
      else a # collapse_runs (b # cs))"
| "collapse_runs cs = cs"

text \<open>Stripping the base from a canonical path is defined when the base is a prefix of it.\<close>

definition strip_base :: "string \<Rightarrow> string \<Rightarrow> string option" where
  "strip_base base path = (if prefix base path then Some (drop (length base) path) else None)"

text \<open>\<open>strrchr(s, c)\<close>: the part of \<open>s\<close> from the last occurrence of \<open>c\<close> on, \<open>None\<close> for the
  null pointer.\<close>

fun strrchr :: "string \<Rightarrow> char \<Rightarrow> string option" where
  "strrchr [] c = None"
| "strrchr (x # xs) c =
     (case strrchr xs c of
        Some r \<Rightarrow> Some r
      | None \<Rightarrow> if x = c then Some (x # xs) else None)"

subsection \<open>RegisterType\<close>

definition RegisterType ::
  "SResourceFactory \<Rightarrow> string \<Rightarrow> pointer \<Rightarrow> pointer \<Rightarrow> pointer \<Rightarrow> pointer
     \<Rightarrow> FactoryResult \<times> SResourceFactory" where
  "RegisterType factory extension context create_function destroy_function recreate_function =
     (if length (m_ResourceTypes factory) = MAX_RESOURCE_TYPES
        then (FACTORY_RESULT_OUT_OF_RESOURCES, factory)
      else if strrchr extension (CHR ''.'') \<noteq> None
        then (FACTORY_RESULT_INVAL, factory)
      else if create_function = 0 \<or> destroy_function = 0
        then (FACTORY_RESULT_INVAL, factory)
      else if FindResourceType factory extension \<noteq> None
        then (FACTORY_RESULT_ALREADY_REGISTERED, factory)
      else (FACTORY_RESULT_OK,
            factory\<lparr>m_ResourceTypes := m_ResourceTypes factory @
              [\<lparr>m_Extension = extension, m_Context = context,
                m_CreateFunction = create_function, m_DestroyFunction = destroy_function,
                m_RecreateFunction = recreate_function\<rparr>]\<rparr>))"

subsection \<open>LoadResource\<close>

text \<open>\<open>memcpy(dest + offset, src, n)\<close> on a buffer held as a list.\<close>

definition memcpy :: "string \<Rightarrow> nat \<Rightarrow> string \<Rightarrow> nat \<Rightarrow> string" where
  "memcpy dest offset src n = take offset dest @ take n src @ drop (offset + n) dest"

definition HttpHeader ::
  "world \<Rightarrow> SResourceFactory \<Rightarrow> int \<Rightarrow> string \<Rightarrow> string \<Rightarrow> SResourceFactory" where
  "HttpHeader w factory status_code key val =
     (let factory = factory\<lparr>m_HttpStatus := status_code\<rparr>
      in if key = ''Content-Length''
         then factory\<lparr>m_HttpContentLength := word_of_int (strtol w val)\<rparr>
         else factory)"

definition HttpContent :: "SResourceFactory \<Rightarrow> int \<Rightarrow> string \<Rightarrow> fault + SResourceFactory" where
  "HttpContent factory status_code content_data =
     (let content_data_size = (of_nat (length content_data) :: uint32_t)
      in if \<not> m_HttpTotalBytesStreamed factory \<le> m_StreamBufferSize factory
           then Inl AssertionFailed
         else if m_StreamBufferSize factory - m_HttpTotalBytesStreamed factory < content_data_size
           then Inr (factory\<lparr>m_HttpFactoryResult := FACTORY_RESULT_STREAMBUFFER_TOO_SMALL\<rparr>)
         else Inr (factory
           \<lparr>m_StreamBuffer := memcpy (m_StreamBuffer factory)
                (unat (m_HttpTotalBytesStreamed factory)) content_data (unat content_data_size),
            m_HttpTotalBytesStreamed := m_HttpTotalBytesStreamed factory + content_data_size\<rparr>))"

text \<open>The callbacks of one GET, run in the order the client makes them.\<close>

fun http_callbacks ::
  "world \<Rightarrow> SResourceFactory \<Rightarrow> http_callback list \<Rightarrow> fault + SResourceFactory" where
  "http_callbacks w factory [] = Inr factory"
| "http_callbacks w factory (OnHeader status_code key val # cs) =
     http_callbacks w (HttpHeader w factory status_code key val) cs"
| "http_callbacks w factory (OnContent status_code content_data # cs) =
     (case HttpContent factory status_code content_data of
        Inl e \<Rightarrow> Inl e
      | Inr factory' \<Rightarrow> http_callbacks w factory' cs)"

text \<open>The three blocks of \<open>LoadResource\<close>. Each result is the \<open>FactoryResult\<close>, the value of
  \<open>*resource_size\<close> (0 where the block does not write it; the callers read it only after
  \<open>FACTORY_RESULT_OK\<close>), the factory and the events. The archive block yields \<open>None\<close> when
  control falls through to the blocks after it.

  The list \<open>m_StreamBuffer\<close> is the allocated buffer: \<open>NewFactory\<close> allocates
  \<open>m_StreamBufferSize + 1\<close> bytes. The guard of \<open>HttpContent\<close> keeps the writes of the HTTP
  block within these. The archive block and the file block index the buffer with the
  size they were given; where that index is not inside the buffer, the write is outside
  the allocation and the call ends with the fault \<open>OutOfBounds\<close>.\<close>

text \<open>Modelled from the spec: \<open>dmResourceArchive\<close> is declared in resource_archive.h, which
  is not among the sources; the specification treats the archive as a lookup by name into
  a read-only blob. The archive is the list of its names with their entries,
  \<open>FindEntry\<close> the lookup, an entry the list of its bytes (\<open>m_Resource\<close>), and the entry's
  \<open>m_Size\<close> their number as the \<open>uint32_t\<close> that \<open>LoadResource\<close> reads.\<close>

definition m_Size :: "string \<Rightarrow> uint32_t" where
  "m_Size entry = of_nat (length entry)"

definition LoadResource_archive ::
  "SResourceFactory \<Rightarrow> string
     \<Rightarrow> (fault + (FactoryResult \<times> uint32_t \<times> SResourceFactory \<times> event list)) option" where
  "LoadResource_archive factory original_name =
     (case m_BuiltinsArchive factory of
        None \<Rightarrow> None
      | Some archive \<Rightarrow>
         (case map_of archive original_name of
            None \<Rightarrow> None
          | Some entry \<Rightarrow>
             let file_size = m_Size entry
             in if file_size + 1 \<ge> m_StreamBufferSize factory
                then Some (Inr (FACTORY_RESULT_STREAMBUFFER_TOO_SMALL, 0, factory,
                       [ArchiveFindEntry original_name,
                        Log LOG_SEVERITY_ERROR ''Resource too large for streambuffer: %s'']))
                else if length (m_StreamBuffer factory) \<le> unat file_size
                then Some (Inl OutOfBounds)
                else Some (Inr (FACTORY_RESULT_OK, file_size,
                       factory\<lparr>m_StreamBuffer :=
                         (memcpy (m_StreamBuffer factory) 0 entry (unat file_size))
                           [unat file_size := CHR 0x00]\<rparr>,
                       [ArchiveFindEntry original_name]))))"

definition LoadResource_http ::
  "world \<Rightarrow> SResourceFactory \<Rightarrow> string
     \<Rightarrow> fault + (FactoryResult \<times> uint32_t \<times> SResourceFactory \<times> event list)" where
  "LoadResource_http w factory path =
     (let factory = factory\<lparr>m_HttpContentLength := 0, m_HttpTotalBytesStreamed := 0,
                            m_HttpFactoryResult := FACTORY_RESULT_OK, m_HttpStatus := - 1\<rparr>;
          (calls, http_result) = dmHttpClient_Get w path
      in case http_callbacks w factory calls of
           Inl e \<Rightarrow> Inl e
         | Inr factory \<Rightarrow>
            if http_result \<noteq> HTTP_RESULT_OK then
              (if m_HttpStatus factory = 404
               then Inr (FACTORY_RESULT_RESOURCE_NOT_FOUND, 0, factory,
                      [HttpGet path, Log LOG_SEVERITY_ERROR ''Resource not found: %s''])
               else Inr (FACTORY_RESULT_IO_ERROR, 0, factory,
                      [HttpGet path, Log LOG_SEVERITY_ERROR ''Resource not found: %s''] @
                      (if http_result = HTTP_RESULT_NOT_200_OK
                       then [Log LOG_SEVERITY_WARNING ''Unexpected http status code: %d'']
                       else [])))
            else if m_HttpFactoryResult factory \<noteq> FACTORY_RESULT_OK
              then Inr (m_HttpFactoryResult factory, 0, factory, [HttpGet path])
            else Inr (FACTORY_RESULT_OK, m_HttpTotalBytesStreamed factory,
                   factory\<lparr>m_StreamBuffer :=
                     (m_StreamBuffer factory)[unat (m_HttpTotalBytesStreamed factory) := CHR 0x00]\<rparr>,
                   [HttpGet path] @
                   (if m_HttpContentLength factory \<noteq> m_HttpTotalBytesStreamed factory
                    then [Log LOG_SEVERITY_ERROR
                      ''Expected content length differs from actually streamed for resource %s (%d != %d)'']
                    else []) @
                   (if m_HttpTotalBytesStreamed factory + 1 \<ge> m_StreamBufferSize factory
                    then [Log LOG_SEVERITY_ERROR ''Resource too large for streambuffer: %s'']
                    else [])))"

definition LoadResource_file ::
  "world \<Rightarrow> SResourceFactory \<Rightarrow> string
     \<Rightarrow> fault + (FactoryResult \<times> uint32_t \<times> SResourceFactory \<times> event list)" where
  "LoadResource_file w factory path =
     (case fopen w path of
        None \<Rightarrow> Inr (FACTORY_RESULT_RESOURCE_NOT_FOUND, 0, factory,
                  [FileOpen path, Log LOG_SEVERITY_ERROR ''Resource not found: %s''])
      | Some f \<Rightarrow>
         let file_size = ftell_end f;
             resource_size = (ucast file_size :: uint32_t)
         in if sint (file_size + 1) \<ge> uint (m_StreamBufferSize factory)
            then Inr (FACTORY_RESULT_STREAMBUFFER_TOO_SMALL, resource_size, factory,
                   [FileOpen path,
                    Log LOG_SEVERITY_ERROR ''Resource too large for streambuffer: %s''])
            else if sint file_size < 0 \<or> length (m_StreamBuffer factory) \<le> nat (sint file_size)
            then Inl OutOfBounds
            else
              let buffer = (m_StreamBuffer factory)[nat (sint file_size) := CHR 0x00];
                  got = take (nat (sint file_size)) (fread_bytes f);
                  factory = factory\<lparr>m_StreamBuffer := memcpy buffer 0 got (length got)\<rparr>
              in if length got \<noteq> nat (sint file_size)
                 then Inr (FACTORY_RESULT_IO_ERROR, resource_size, factory, [FileOpen path])
                 else Inr (FACTORY_RESULT_OK, resource_size, factory, [FileOpen path]))"

definition LoadResource ::
  "world \<Rightarrow> SResourceFactory \<Rightarrow> string \<Rightarrow> string
     \<Rightarrow> fault + (FactoryResult \<times> uint32_t \<times> SResourceFactory \<times> event list)" where
  "LoadResource w factory path original_name =
     (case LoadResource_archive factory original_name of
        Some r \<Rightarrow> r
      | None \<Rightarrow>
         (case (if m_HttpClient factory then LoadResource_http w factory path
                else LoadResource_file w factory path) of
            Inl e \<Rightarrow> Inl e
          | Inr (result, resource_size, factory', ev) \<Rightarrow>
             Inr (result, resource_size, factory',
                  (if m_BuiltinsArchive factory \<noteq> None
                   then [ArchiveFindEntry original_name] else []) @ ev)))"

subsection \<open>Get and Release\<close>

text \<open>Following a descriptor's \<open>m_ResourceType\<close> pointer into the registry.\<close>

definition resource_type_at :: "SResourceFactory \<Rightarrow> nat \<Rightarrow> SResourceType option" where
  "resource_type_at factory i =
     (if i < length (m_ResourceTypes factory) then Some (m_ResourceTypes factory ! i) else None)"

text \<open>The part of \<open>Get\<close> after a successful load: the descriptor is built, the create function
  of the type at index \<open>i\<close> is called, and on \<open>CREATE_RESULT_OK\<close> the descriptor enters the
  tables. \<open>ev\<close> are the events of the load.\<close>

definition Get_create ::
  "world \<Rightarrow> SResourceFactory \<Rightarrow> string \<Rightarrow> string \<Rightarrow> uint64_t \<Rightarrow> nat \<Rightarrow> uint32_t \<Rightarrow> event list
     \<Rightarrow> fault + (FactoryResult \<times> pointer \<times> SResourceFactory \<times> event list)" where
  "Get_create w factory name canonical_path canonical_path_hash i file_size ev =
     (let resource_type = m_ResourceTypes factory ! i;
          (create_error, resource) =
             create_cb w (m_CreateFunction resource_type) (m_Context resource_type)
               (m_StreamBuffer factory) file_size name;
          tmp_resource = \<lparr>m_NameHash = canonical_path_hash, m_Resource = resource,
                          m_ResourceType = i, m_ReferenceCount = 1\<rparr>;
          ev = ev @ [CallCreate (m_CreateFunction resource_type) (m_Context resource_type)
                       (take (unat file_size) (m_StreamBuffer factory)) name]
      in if create_error = CREATE_RESULT_OK then
           (if resource = 0 then Inl AssertionFailed
            else Inr (FACTORY_RESULT_OK, resource,
                   factory\<lparr>m_Resources := (m_Resources factory)(canonical_path_hash \<mapsto> tmp_resource),
                           m_ResourceToHash := (m_ResourceToHash factory)(resource \<mapsto> canonical_path_hash),
                           m_ResourceHashToFilename :=
                             (case m_ResourceHashToFilename factory of
                                None \<Rightarrow> None
                              | Some t \<Rightarrow> Some (t(canonical_path_hash \<mapsto> canonical_path)))\<rparr>,
                   ev))
         else Inr (FACTORY_RESULT_UNKNOWN, 0, factory,
                ev @ [Log LOG_SEVERITY_WARNING ''Unable to create resource: %s'']))"

text \<open>\<open>Get\<close>: the result, the value of \<open>*resource\<close> (set to 0 on entry), the factory and the
  events.\<close>

definition Get ::
  "world \<Rightarrow> SResourceFactory \<Rightarrow> string
     \<Rightarrow> fault + (FactoryResult \<times> pointer \<times> SResourceFactory \<times> event list)" where
  "Get w factory name =
     (let canonical_path = GetCanonicalPath (m_UriParts_Path factory) name;
          canonical_path_hash = dmHashBuffer64 w canonical_path
      in case m_Resources factory canonical_path_hash of
           Some rd \<Rightarrow>
             if m_ResourceToHash factory (m_Resource rd) = None then Inl AssertionFailed
             else Inr (FACTORY_RESULT_OK, m_Resource rd,
                    factory\<lparr>m_Resources := (m_Resources factory)
                      (canonical_path_hash \<mapsto> rd\<lparr>m_ReferenceCount := m_ReferenceCount rd + 1\<rparr>)\<rparr>,
                    [])
         | None \<Rightarrow>
            (case strrchr name (CHR ''.'') of
               None \<Rightarrow>
                 Inr (FACTORY_RESULT_MISSING_FILE_EXTENSION, 0, factory,
                   [Log LOG_SEVERITY_WARNING ''Unable to load resource: %s. Missing file extension.''])
             | Some dot \<Rightarrow>
                (case FindResourceType factory (tl dot) of
                   None \<Rightarrow>
                     Inr (FACTORY_RESULT_UNKNOWN_RESOURCE_TYPE, 0, factory,
                       [Log LOG_SEVERITY_ERROR ''Unknown resource type: %s''])
                 | Some i \<Rightarrow>
                    (case LoadResource w factory canonical_path name of
                       Inl e \<Rightarrow> Inl e
                     | Inr (result, file_size, factory', ev) \<Rightarrow>
                        if result \<noteq> FACTORY_RESULT_OK then Inr (result, 0, factory', ev)
                        else Get_create w factory' name canonical_path canonical_path_hash
                               i file_size ev))))"

text \<open>\<open>Release\<close> returns nothing: the factory and the events.\<close>

definition Release ::
  "world \<Rightarrow> SResourceFactory \<Rightarrow> pointer \<Rightarrow> fault + (SResourceFactory \<times> event list)" where
  "Release w factory resource =
     (case m_ResourceToHash factory resource of
        None \<Rightarrow> Inl AssertionFailed
      | Some resource_hash \<Rightarrow>
         (case m_Resources factory resource_hash of
            None \<Rightarrow> Inl AssertionFailed
          | Some rd0 \<Rightarrow>
             if \<not> m_ReferenceCount rd0 > 0 then Inl AssertionFailed
             else
               let rd = rd0\<lparr>m_ReferenceCount := m_ReferenceCount rd0 - 1\<rparr>;
                   factory = factory\<lparr>m_Resources := (m_Resources factory)(resource_hash \<mapsto> rd)\<rparr>
               in if m_ReferenceCount rd = 0 then
                    (case resource_type_at factory (m_ResourceType rd) of
                       None \<Rightarrow> Inl InvalidPointer
                     | Some resource_type \<Rightarrow>
                        let ev = [CallDestroy (m_DestroyFunction resource_type)
                                    (m_Context resource_type) rd];
                            factory = factory
                              \<lparr>m_ResourceToHash := (m_ResourceToHash factory)(resource := None),
                               m_Resources := (m_Resources factory)(resource_hash := None)\<rparr>
                        in (case m_ResourceHashToFilename factory of
                              None \<Rightarrow> Inr (factory, ev)
                            | Some t \<Rightarrow>
                               (case t resource_hash of
                                  None \<Rightarrow> Inl AssertionFailed
                                | Some s \<Rightarrow>
                                   Inr (factory\<lparr>m_ResourceHashToFilename :=
                                          Some (t(resource_hash := None))\<rparr>, ev))))
                  else Inr (factory, [])))"

text \<open>\<open>Get\<close> called \<open>n\<close> times with one name, \<open>Release\<close> called \<open>n\<close> times on one handle: the
  results in order, the last factory, and all events in order.\<close>

fun Get_times ::
  "world \<Rightarrow> SResourceFactory \<Rightarrow> string \<Rightarrow> nat
     \<Rightarrow> fault + ((FactoryResult \<times> pointer) list \<times> SResourceFactory \<times> event list)" where
  "Get_times w factory name 0 = Inr ([], factory, [])"
| "Get_times w factory name (Suc n) =
     (case Get w factory name of
        Inl e \<Rightarrow> Inl e
      | Inr (result, resource, factory', ev) \<Rightarrow>
         (case Get_times w factory' name n of
            Inl e \<Rightarrow> Inl e
          | Inr (rs, factory'', evs) \<Rightarrow> Inr ((result, resource) # rs, factory'', ev @ evs)))"

fun Release_times ::
  "world \<Rightarrow> SResourceFactory \<Rightarrow> pointer \<Rightarrow> nat \<Rightarrow> fault + (SResourceFactory \<times> event list)" where
  "Release_times w factory resource 0 = Inr (factory, [])"
| "Release_times w factory resource (Suc n) =
     (case Release w factory resource of
        Inl e \<Rightarrow> Inl e
      | Inr (factory', ev) \<Rightarrow>
         (case Release_times w factory' resource n of
            Inl e \<Rightarrow> Inl e
          | Inr (factory'', evs) \<Rightarrow> Inr (factory'', ev @ evs)))"

subsection \<open>ReloadResource\<close>

text \<open>The \<open>switch\<close> at the end of \<open>ReloadResource\<close>, entered when the recreate function
  did not return \<open>CREATE_RESULT_OK\<close>; its \<open>default\<close> gives \<open>RELOAD_RESULT_UNKNOWN\<close>.\<close>

fun ReloadResource_switch :: "CreateResult \<Rightarrow> ReloadResult" where
  "ReloadResource_switch CREATE_RESULT_OUT_OF_MEMORY = RELOAD_RESULT_OUT_OF_MEMORY"
| "ReloadResource_switch CREATE_RESULT_FORMAT_ERROR = RELOAD_RESULT_FORMAT_ERROR"
| "ReloadResource_switch CREATE_RESULT_CONSTANT_ERROR = RELOAD_RESULT_CONSTANT_ERROR"
| "ReloadResource_switch CREATE_RESULT_UNKNOWN = RELOAD_RESULT_UNKNOWN"
| "ReloadResource_switch CREATE_RESULT_OK = RELOAD_RESULT_UNKNOWN"

text \<open>The loop over \<open>m_ResourceReloadedCallbacks\<close>, from index 0 up.\<close>

fun notify_reloaded ::
  "ResourceReloadedCallbackPair list \<Rightarrow> SResourceDescriptor \<Rightarrow> string \<Rightarrow> event list" where
  "notify_reloaded [] rd name = []"
| "notify_reloaded (pair # pairs) rd name =
     CallReloaded (m_Callback pair) (m_UserData pair) rd name # notify_reloaded pairs rd name"

text \<open>\<open>ReloadResource\<close>: the result, \<open>*out_descriptor\<close>, the factory and the events.\<close>

definition ReloadResource ::
  "world \<Rightarrow> SResourceFactory \<Rightarrow> string
     \<Rightarrow> fault + (ReloadResult \<times> SResourceDescriptor option \<times> SResourceFactory \<times> event list)" where
  "ReloadResource w factory name =
     (let canonical_path = GetCanonicalPath (m_UriParts_Path factory) name;
          canonical_path_hash = dmHashBuffer64 w canonical_path
      in case m_Resources factory canonical_path_hash of
           None \<Rightarrow> Inr (RELOAD_RESULT_NOT_FOUND, None, factory, [])
         | Some rd \<Rightarrow>
            (case resource_type_at factory (m_ResourceType rd) of
               None \<Rightarrow> Inl InvalidPointer
             | Some resource_type \<Rightarrow>
                if m_RecreateFunction resource_type = 0
                  then Inr (RELOAD_RESULT_NOT_SUPPORTED, Some rd, factory, [])
                else
                  (case LoadResource w factory canonical_path name of
                     Inl e \<Rightarrow> Inl e
                   | Inr (result, file_size, factory', ev) \<Rightarrow>
                      if result \<noteq> FACTORY_RESULT_OK
                        then Inr (RELOAD_RESULT_LOAD_ERROR, Some rd, factory', ev)
                      else
                        let create_result =
                              recreate_cb w (m_RecreateFunction resource_type)
                                (m_Context resource_type) (m_StreamBuffer factory') file_size rd name;
                            ev = ev @ [CallRecreate (m_RecreateFunction resource_type)
                                         (m_Context resource_type)
                                         (take (unat file_size) (m_StreamBuffer factory')) rd name]
                        in if create_result = CREATE_RESULT_OK then
                             Inr (RELOAD_RESULT_OK, Some rd, factory',
                               ev @ (case m_ResourceReloadedCallbacks factory' of
                                       None \<Rightarrow> []
                                     | Some pairs \<Rightarrow> notify_reloaded pairs rd name))
                           else Inr (ReloadResource_switch create_result, Some rd, factory', ev))))"

subsection \<open>The reload callbacks\<close>

definition RegisterResourceReloadedCallback ::
  "SResourceFactory \<Rightarrow> pointer \<Rightarrow> pointer \<Rightarrow> SResourceFactory \<times> event list" where
  "RegisterResourceReloadedCallback factory callback user_data =
     (case m_ResourceReloadedCallbacks factory of
        None \<Rightarrow> (factory, [])
      | Some pairs \<Rightarrow>
         if length pairs \<noteq> MAX_CALLBACKS
         then (factory\<lparr>m_ResourceReloadedCallbacks :=
                 Some (pairs @ [\<lparr>m_Callback = callback, m_UserData = user_data\<rparr>])\<rparr>, [])
         else (factory, [Log LOG_SEVERITY_WARNING
                 ''Resource reloaded callback could not be registered since the maximum capacity of callbacks has been reached (%d).'']))"

text \<open>Modelled from the spec: \<open>dmArray::EraseSwap\<close> is defined in dlib/array.h, which is
  not among the sources; section 4.6 of the specification calls the removal an
  erase-swap. \<open>EraseSwap(i)\<close> puts the last element in the place of element \<open>i\<close> and
  shrinks the array by one. \<open>Full()\<close> holds when the size is the capacity, here
  \<open>MAX_CALLBACKS\<close>.\<close>

definition EraseSwap :: "'a list \<Rightarrow> nat \<Rightarrow> 'a list" where
  "EraseSwap xs i = butlast (xs[i := last xs])"

function UnregisterResourceReloadedCallback_loop ::
  "ResourceReloadedCallbackPair list \<Rightarrow> nat \<Rightarrow> nat \<Rightarrow> pointer \<Rightarrow> pointer
     \<Rightarrow> ResourceReloadedCallbackPair list" where
  "UnregisterResourceReloadedCallback_loop pairs i sz callback user_data =
     (if i < sz then
        (if m_Callback (pairs ! i) = callback \<and> m_UserData (pairs ! i) = user_data
         then UnregisterResourceReloadedCallback_loop (EraseSwap pairs i) i (sz - 1)
                callback user_data
         else UnregisterResourceReloadedCallback_loop pairs (i + 1) sz callback user_data)
      else pairs)"
  by pat_completeness auto
termination
  by (relation "measure (\<lambda>(pairs, i, sz, callback, user_data). sz - i)") auto

declare UnregisterResourceReloadedCallback_loop.simps [simp del]

definition UnregisterResourceReloadedCallback ::
  "SResourceFactory \<Rightarrow> pointer \<Rightarrow> pointer \<Rightarrow> SResourceFactory" where
  "UnregisterResourceReloadedCallback factory callback user_data =
     (case m_ResourceReloadedCallbacks factory of
        None \<Rightarrow> factory
      | Some pairs \<Rightarrow>
         factory\<lparr>m_ResourceReloadedCallbacks :=
           Some (UnregisterResourceReloadedCallback_loop pairs 0 (length pairs)
                   callback user_data)\<rparr>)"

text \<open>A history of calls to the two registry functions, run on a factory (the log lines
  of a refused registration are dropped).\<close>

datatype observer_op = Register pointer pointer | Unregister pointer pointer

fun apply_observer_ops :: "SResourceFactory \<Rightarrow> observer_op list \<Rightarrow> SResourceFactory" where
  "apply_observer_ops factory [] = factory"
| "apply_observer_ops factory (Register callback user_data # ops) =
     apply_observer_ops (fst (RegisterResourceReloadedCallback factory callback user_data)) ops"
| "apply_observer_ops factory (Unregister callback user_data # ops) =
     apply_observer_ops (UnregisterResourceReloadedCallback factory callback user_data) ops"

text \<open>The specification's words for the observers: the pairs registered and not
  unregistered since, in the order of their registration; a registration is dropped when
  16 pairs are registered; unregistering removes every pair that matches both fields. This
  definition follows the specification, not the code.\<close>

fun registered_in_order ::
  "observer_op list \<Rightarrow> ResourceReloadedCallbackPair list \<Rightarrow> ResourceReloadedCallbackPair list" where
  "registered_in_order [] acc = acc"
| "registered_in_order (Register callback user_data # ops) acc =
     registered_in_order ops
       (if length acc < 16 then acc @ [\<lparr>m_Callback = callback, m_UserData = user_data\<rparr>]
        else acc)"
| "registered_in_order (Unregister callback user_data # ops) acc =
     registered_in_order ops
       (filter (\<lambda>pair. \<not> (m_Callback pair = callback \<and> m_UserData pair = user_data)) acc)"

fun is_Unregister :: "observer_op \<Rightarrow> bool" where
  "is_Unregister (Unregister callback user_data) = True"
| "is_Unregister (Register callback user_data) = False"

fun is_CallReloaded :: "event \<Rightarrow> bool" where
  "is_CallReloaded (CallReloaded callback user_data rd name) = True"
| "is_CallReloaded e = False"

fun is_CallDestroy :: "event \<Rightarrow> bool" where
  "is_CallDestroy (CallDestroy fn context rd) = True"
| "is_CallDestroy e = False"

fun is_CallCreate :: "event \<Rightarrow> bool" where
  "is_CallCreate (CallCreate fn context buffer name) = True"
| "is_CallCreate e = False"

subsection \<open>Notions used in the statements and proofs\<close>

text \<open>What \<open>LoadResource\<close> leaves alone: every field but the stream buffer and the four
  fields of the HTTP state.\<close>

definition load_frame :: "SResourceFactory \<Rightarrow> SResourceFactory \<Rightarrow> bool" where
  "load_frame f f' \<longleftrightarrow>
     m_Resources f' = m_Resources f \<and> m_ResourceToHash f' = m_ResourceToHash f \<and>
     m_ResourceHashToFilename f' = m_ResourceHashToFilename f \<and>
     m_ResourceReloadedCallbacks f' = m_ResourceReloadedCallbacks f \<and>
     m_ResourceTypes f' = m_ResourceTypes f \<and> m_UriParts_Path f' = m_UriParts_Path f \<and>
     m_HttpClient f' = m_HttpClient f \<and> m_StreamBufferSize f' = m_StreamBufferSize f \<and>
     m_HttpServer f' = m_HttpServer f \<and> m_BuiltinsArchive f' = m_BuiltinsArchive f"

text \<open>The events of a load: log lines and the calls into the three transports.\<close>

fun is_load_event :: "event \<Rightarrow> bool" where
  "is_load_event (Log severity format) = True"
| "is_load_event (ArchiveFindEntry name) = True"
| "is_load_event (HttpGet path) = True"
| "is_load_event (FileOpen path) = True"
| "is_load_event e = False"



text \<open>The test of \<open>UnregisterResourceReloadedCallback\<close>: a pair matches when both fields
  are equal.\<close>

definition matches :: "pointer \<Rightarrow> pointer \<Rightarrow> ResourceReloadedCallbackPair \<Rightarrow> bool" where
  "matches callback user_data pair \<longleftrightarrow>
     m_Callback pair = callback \<and> m_UserData pair = user_data"

text \<open>The factory with the descriptor stored under a name hash replaced.\<close>

definition with_descriptor ::
  "SResourceFactory \<Rightarrow> uint64_t \<Rightarrow> SResourceDescriptor \<Rightarrow> SResourceFactory" where
  "with_descriptor f h rd = f\<lparr>m_Resources := (m_Resources f)(h \<mapsto> rd)\<rparr>"

subsection \<open>Example inputs\<close>

text \<open>A factory for \<open>file:///tmp/data\<close> with reload support, an 8-byte stream buffer and one
  registered type, \<open>txt\<close>; a world whose disk holds \<open>/tmp/data/a.txt\<close> with the content
  \<open>hello\<close> and whose create function returns the object at address 4096.\<close>

definition example_hash :: "string \<Rightarrow> uint64_t" where
  "example_hash s = foldl (\<lambda>h c. 33 * h + of_nat (of_char c)) 5381 s"

definition example_world :: world where
  "example_world =
     \<lparr>dmHashBuffer64 = example_hash,
      strtol = (\<lambda>s. if s = ''10'' then 10 else 0),
      dmHttpClient_Get = (\<lambda>path. ([], HTTP_RESULT_FAILED)),
      fopen = [''/tmp/data/a.txt'' \<mapsto> \<lparr>ftell_end = 5, fread_bytes = ''hello''\<rparr>],
      create_cb = (\<lambda>fn context buffer size name. (CREATE_RESULT_OK, 4096)),
      recreate_cb = (\<lambda>fn context buffer size rd name. CREATE_RESULT_OK)\<rparr>"

definition example_txt_type :: SResourceType where
  "example_txt_type =
     \<lparr>m_Extension = ''txt'', m_Context = 7, m_CreateFunction = 1, m_DestroyFunction = 2,
      m_RecreateFunction = 3\<rparr>"

definition example_factory :: SResourceFactory where
  "example_factory =
     \<lparr>m_Resources = Map.empty, m_ResourceToHash = Map.empty,
      m_ResourceHashToFilename = Some Map.empty, m_ResourceReloadedCallbacks = Some [],
      m_ResourceTypes = [example_txt_type], m_UriParts_Path = ''/tmp/data'',
      m_HttpClient = False,
      m_StreamBuffer =
        [CHR 0x00, CHR 0x00, CHR 0x00, CHR 0x00, CHR 0x00, CHR 0x00, CHR 0x00, CHR 0x00, CHR 0x00],
      m_StreamBufferSize = 8,
      m_HttpContentLength = 0, m_HttpTotalBytesStreamed = 0, m_HttpStatus = 0,
      m_HttpFactoryResult = FACTORY_RESULT_OK, m_HttpServer = False,
      m_BuiltinsArchive = None\<rparr>"

text \<open>The descriptor and the factory after the first \<open>Get\<close> of \<open>a.txt\<close>.\<close>

definition example_descriptor :: SResourceDescriptor where
  "example_descriptor =
     \<lparr>m_NameHash = example_hash ''/tmp/data/a.txt'', m_Resource = 4096, m_ResourceType = 0,
      m_ReferenceCount = 1\<rparr>"

definition example_loaded :: SResourceFactory where
  "example_loaded = example_factory
     \<lparr>m_Resources := [example_hash ''/tmp/data/a.txt'' \<mapsto> example_descriptor],
      m_ResourceToHash := [4096 \<mapsto> example_hash ''/tmp/data/a.txt''],
      m_ResourceHashToFilename := Some [example_hash ''/tmp/data/a.txt'' \<mapsto> ''/tmp/data/a.txt''],
      m_StreamBuffer := ''hello'' @ [CHR 0x00, CHR 0x00, CHR 0x00, CHR 0x00]\<rparr>"

text \<open>The loaded factory when the type \<open>txt\<close> was registered without a recreate function.\<close>

definition example_loaded_no_recreate :: SResourceFactory where
  "example_loaded_no_recreate = example_loaded
     \<lparr>m_ResourceTypes := [example_txt_type\<lparr>m_RecreateFunction := 0\<rparr>]\<rparr>"

text \<open>A world whose create and recreate functions refuse the content.\<close>

definition example_failing_world :: world where
  "example_failing_world = example_world
     \<lparr>create_cb := (\<lambda>fn context buffer size name. (CREATE_RESULT_FORMAT_ERROR, 0)),
      recreate_cb := (\<lambda>fn context buffer size rd name. CREATE_RESULT_FORMAT_ERROR)\<rparr>"

text \<open>The world after the file was overwritten with \<open>world\<close>.\<close>

definition example_world2 :: world where
  "example_world2 = example_world
     \<lparr>fopen := [''/tmp/data/a.txt'' \<mapsto> \<lparr>ftell_end = 5, fread_bytes = ''world''\<rparr>]\<rparr>"

text \<open>A registry that holds 128 types, with the extensions \<open>x\<close>, \<open>xx\<close>, \<open>xxx\<close>, ...\<close>

definition example_full_factory :: SResourceFactory where
  "example_full_factory = example_factory
     \<lparr>m_ResourceTypes :=
        map (\<lambda>i. \<lparr>m_Extension = replicate (Suc i) (CHR ''x''), m_Context = 0,
                  m_CreateFunction = 1, m_DestroyFunction = 2, m_RecreateFunction = 0\<rparr>)
          [0..<128]\<rparr>"





text \<open>Three observers are registered on the loaded factory, then the first is
  unregistered; the factory after these calls.\<close>

definition example_observer_ops :: "observer_op list" where
  "example_observer_ops = [Register 10 0, Register 11 0, Register 12 0, Unregister 10 0]"

definition example_observed :: SResourceFactory where
  "example_observed = example_loaded
     \<lparr>m_ResourceReloadedCallbacks :=
        Some [\<lparr>m_Callback = 12, m_UserData = 0\<rparr>, \<lparr>m_Callback = 11, m_UserData = 0\<rparr>]\<rparr>"

section \<open>Properties\<close>

subsection \<open>The example inputs, evaluated\<close>

lemma example_canonical: "GetCanonicalPath ''/tmp/data'' ''a.txt'' = ''/tmp/data/a.txt''"
  by (simp add: GetCanonicalPath_def DM_SNPRINTF_def RESOURCE_PATH_MAX_def)

lemma example_factory_sels:
  "m_Resources example_factory = Map.empty"
  "m_ResourceToHash example_factory = Map.empty"
  "m_ResourceHashToFilename example_factory = Some Map.empty"
  "m_ResourceReloadedCallbacks example_factory = Some []"
  "m_ResourceTypes example_factory = [example_txt_type]"
  "m_UriParts_Path example_factory = ''/tmp/data''"
  "m_HttpClient example_factory = False"
  "m_StreamBuffer example_factory =
     [CHR 0x00, CHR 0x00, CHR 0x00, CHR 0x00, CHR 0x00, CHR 0x00, CHR 0x00, CHR 0x00, CHR 0x00]"
  "m_StreamBufferSize example_factory = 8"
  "m_BuiltinsArchive example_factory = None"
  by (simp_all add: example_factory_def)

lemma example_world_sels:
  "dmHashBuffer64 example_world = example_hash"
  "fopen example_world = [''/tmp/data/a.txt'' \<mapsto> \<lparr>ftell_end = 5, fread_bytes = ''hello''\<rparr>]"
  "create_cb example_world = (\<lambda>fn context buffer size name. (CREATE_RESULT_OK, 4096))"
  "recreate_cb example_world = (\<lambda>fn context buffer size rd name. CREATE_RESULT_OK)"
  by (simp_all add: example_world_def)

lemma example_load:
  "LoadResource example_world example_factory ''/tmp/data/a.txt'' ''a.txt'' =
     Inr (FACTORY_RESULT_OK, 5, example_factory\<lparr>m_StreamBuffer := ''hello'' @ [CHR 0x00, CHR 0x00, CHR 0x00, CHR 0x00]\<rparr>,
          [FileOpen ''/tmp/data/a.txt''])"
  by (simp add: LoadResource_def LoadResource_archive_def LoadResource_file_def example_factory_sels
      example_world_sels memcpy_def Let_def)

lemma example_get:
  "Get example_world example_factory ''a.txt'' =
     Inr (FACTORY_RESULT_OK, 4096, example_loaded,
          [FileOpen ''/tmp/data/a.txt'', CallCreate 1 7 ''hello'' ''a.txt''])"
  by (simp add: Get_def Let_def example_canonical example_load example_factory_sels example_world_sels
       Get_create_def FindResourceType_def example_loaded_def example_descriptor_def example_txt_type_def)

lemma example_get2:
  "Get example_world example_loaded ''a.txt'' =
     Inr (FACTORY_RESULT_OK, 4096, example_loaded\<lparr>m_Resources := [example_hash ''/tmp/data/a.txt'' \<mapsto> example_descriptor\<lparr>m_ReferenceCount := 2\<rparr>]\<rparr>,
          [])"
  by (simp add: Get_def Let_def example_canonical  example_factory_sels example_world_sels
       example_loaded_def example_descriptor_def )

lemma example_loaded_sels:
  "m_Resources example_loaded = [example_hash ''/tmp/data/a.txt'' \<mapsto> example_descriptor]"
  "m_ResourceToHash example_loaded = [4096 \<mapsto> example_hash ''/tmp/data/a.txt'']"
  "m_ResourceHashToFilename example_loaded =
     Some [example_hash ''/tmp/data/a.txt'' \<mapsto> ''/tmp/data/a.txt'']"
  "m_ResourceReloadedCallbacks example_loaded = Some []"
  "m_ResourceTypes example_loaded = [example_txt_type]"
  "m_UriParts_Path example_loaded = ''/tmp/data''"
  "m_HttpClient example_loaded = False"
  "m_StreamBuffer example_loaded = ''hello'' @ [CHR 0x00, CHR 0x00, CHR 0x00, CHR 0x00]"
  "m_StreamBufferSize example_loaded = 8"
  "m_BuiltinsArchive example_loaded = None"
  by (simp_all add: example_loaded_def example_factory_sels)

lemma example_descriptor_sels:
  "m_NameHash example_descriptor = example_hash ''/tmp/data/a.txt''"
  "m_Resource example_descriptor = 4096"
  "m_ResourceType example_descriptor = 0"
  "m_ReferenceCount example_descriptor = 1"
  by (simp_all add: example_descriptor_def)

lemma example_reload:
  "ReloadResource example_world2 example_loaded ''a.txt'' =
     Inr (RELOAD_RESULT_OK, Some example_descriptor,
          example_loaded\<lparr>m_StreamBuffer := ''world'' @ [CHR 0x00, CHR 0x00, CHR 0x00, CHR 0x00]\<rparr>,
          [FileOpen ''/tmp/data/a.txt'',
           CallRecreate 3 7 ''world'' example_descriptor ''a.txt''])"
  by (simp add: ReloadResource_def Let_def example_canonical example_loaded_sels
      example_world2_def example_world_sels resource_type_at_def example_txt_type_def
      example_descriptor_sels LoadResource_def LoadResource_archive_def LoadResource_file_def memcpy_def)

lemma example_no_recreate_sels:
  "m_Resources example_loaded_no_recreate = [example_hash ''/tmp/data/a.txt'' \<mapsto> example_descriptor]"
  "m_ResourceTypes example_loaded_no_recreate = [example_txt_type\<lparr>m_RecreateFunction := 0\<rparr>]"
  "m_UriParts_Path example_loaded_no_recreate = ''/tmp/data''"
  by (simp_all add: example_loaded_no_recreate_def example_loaded_sels)

lemma example_hash_miss: "m_Resources example_factory
       (dmHashBuffer64 example_world
         (GetCanonicalPath (m_UriParts_Path example_factory) ''a.txt'')) = None"
  by (simp add: example_factory_sels)

lemma example_get_no_extension:
  "Get example_world example_factory ''a'' =
     Inr (FACTORY_RESULT_MISSING_FILE_EXTENSION, 0, example_factory,
          [Log LOG_SEVERITY_WARNING ''Unable to load resource: %s. Missing file extension.''])"
  by (simp add: Get_def Let_def example_factory_sels example_world_sels)

lemma example_load_loaded:
  "LoadResource example_failing_world example_loaded ''/tmp/data/a.txt'' ''a.txt'' =
     Inr (FACTORY_RESULT_OK, 5, example_loaded, [FileOpen ''/tmp/data/a.txt''])"
proof -
  have "example_loaded\<lparr>m_StreamBuffer := ''hello'' @ [CHR 0x00, CHR 0x00, CHR 0x00, CHR 0x00]\<rparr> =
      example_loaded"
    by (simp add: example_loaded_def)
  then show ?thesis
    by (simp add: LoadResource_def LoadResource_archive_def LoadResource_file_def
        example_loaded_sels example_failing_world_def example_world_sels memcpy_def Let_def)
qed

lemma example_load_failing:
  "LoadResource example_failing_world example_factory ''/tmp/data/a.txt'' ''a.txt'' =
     Inr (FACTORY_RESULT_OK, 5,
          example_factory\<lparr>m_StreamBuffer := ''hello'' @ [CHR 0x00, CHR 0x00, CHR 0x00, CHR 0x00]\<rparr>,
          [FileOpen ''/tmp/data/a.txt''])"
  by (simp add: LoadResource_def LoadResource_archive_def LoadResource_file_def
      example_factory_sels example_failing_world_def example_world_sels memcpy_def Let_def)

subsection \<open>The canonical path\<close>

lemma collapse_runs_loop: "collapse_runs (l # xs) = l # GetCanonicalPath_loop l xs"
  by (induction xs arbitrary: l) auto

lemma loop_eq_collapse_runs:
  "l \<noteq> CHR ''/'' \<Longrightarrow> GetCanonicalPath_loop l xs = collapse_runs xs"
  using collapse_runs_loop [of l xs] by (cases xs) auto

lemma loop_append:
  "GetCanonicalPath_loop l (xs @ ys) =
     GetCanonicalPath_loop l xs @ GetCanonicalPath_loop (if xs = [] then l else last xs) ys"
  by (induction xs arbitrary: l) auto

lemma loop_idem:
  "GetCanonicalPath_loop l (GetCanonicalPath_loop l xs) = GetCanonicalPath_loop l xs"
  by (induction xs arbitrary: l) auto

lemma loop_length: "length (GetCanonicalPath_loop l xs) \<le> length xs"
  by (induction xs arbitrary: l) (auto simp: le_SucI)

lemma loop_slash_idem:
  "GetCanonicalPath_loop l (CHR ''/'' # GetCanonicalPath_loop l (CHR ''/'' # xs)) =
     GetCanonicalPath_loop l (CHR ''/'' # xs)"
  by (cases "l = CHR ''/''") (simp_all add: loop_idem)

lemma loop_after_slash:
  "GetCanonicalPath_loop (CHR ''/'') xs = y # ys \<Longrightarrow> y \<noteq> CHR ''/''"
  by (induction xs) (auto split: if_splits)

lemma loop_no_double:
  "GetCanonicalPath_loop l xs \<noteq> ps @ CHR ''/'' # CHR ''/'' # ss"
proof (induction xs arbitrary: l ps)
  case Nil
  then show ?case by simp
next
  case (Cons c xs)
  show ?case
  proof (cases "c \<noteq> CHR ''/'' \<or> l \<noteq> CHR ''/''")
    case False
    then show ?thesis using Cons.IH [of c ps] by simp
  next
    case True
    then have eq: "GetCanonicalPath_loop l (c # xs) = c # GetCanonicalPath_loop c xs" by auto
    show ?thesis
    proof (cases ps)
      case Nil
      then show ?thesis using eq loop_after_slash [of xs "CHR ''/''" ss] by auto
    next
      case (Cons p ps')
      then show ?thesis using eq Cons.IH [of c ps'] by auto
    qed
  qed
qed

lemma canon_no_double: "\<not> sublist ''//'' (GetCanonicalPath b r)"
  by (auto simp: sublist_def GetCanonicalPath_def loop_no_double)

lemma DM_SNPRINTF_fits:
  "length b + 1 + length r < RESOURCE_PATH_MAX \<Longrightarrow>
     DM_SNPRINTF RESOURCE_PATH_MAX b r = b @ ''/'' @ r"
  by (simp add: DM_SNPRINTF_def RESOURCE_PATH_MAX_def)

lemma canon_refines:
  "length b + 1 + length r < RESOURCE_PATH_MAX \<Longrightarrow>
     GetCanonicalPath b r = collapse_runs (b @ ''/'' @ r)"
  by (simp add: GetCanonicalPath_def DM_SNPRINTF_fits loop_eq_collapse_runs)

lemma canon_idem:
  assumes fits: "length b + 1 + length r < RESOURCE_PATH_MAX"
    and strip: "strip_base b (GetCanonicalPath b r) = Some t"
    and fits2: "length b + 1 + length t < RESOURCE_PATH_MAX"
  shows "GetCanonicalPath b t = GetCanonicalPath b r"
proof -
  let ?z = "CHR 0x00"
  let ?lb = "if b = [] then ?z else last b"
  let ?P = "GetCanonicalPath b r"
  have P: "?P = GetCanonicalPath_loop ?z b @ GetCanonicalPath_loop ?lb (CHR ''/'' # r)"
    using fits by (simp add: GetCanonicalPath_def DM_SNPRINTF_fits loop_append)
  have bt: "?P = b @ t"
    using strip by (auto simp: strip_base_def prefix_def split: if_splits)
  have idem: "GetCanonicalPath_loop ?z ?P = ?P"
    by (simp add: GetCanonicalPath_def loop_idem)
  have "GetCanonicalPath_loop ?z (b @ t) =
      GetCanonicalPath_loop ?z b @ GetCanonicalPath_loop ?lb t"
    by (rule loop_append)
  with idem bt have dec: "b @ t = GetCanonicalPath_loop ?z b @ GetCanonicalPath_loop ?lb t"
    by simp
  have l1: "length (GetCanonicalPath_loop ?z b) \<le> length b"
    and l2: "length (GetCanonicalPath_loop ?lb t) \<le> length t"
    by (rule loop_length)+
  from dec have "length b + length t =
      length (GetCanonicalPath_loop ?z b) + length (GetCanonicalPath_loop ?lb t)"
    by (metis length_append)
  with l1 l2 have "length (GetCanonicalPath_loop ?z b) = length b" by linarith
  with dec have b_fix: "GetCanonicalPath_loop ?z b = b" by (metis append_eq_append_conv)
  from P bt b_fix have t_eq: "t = GetCanonicalPath_loop ?lb (CHR ''/'' # r)" by simp
  have "GetCanonicalPath b t =
      GetCanonicalPath_loop ?z b @ GetCanonicalPath_loop ?lb (CHR ''/'' # t)"
    using fits2 by (simp add: GetCanonicalPath_def DM_SNPRINTF_fits loop_append)
  also have "GetCanonicalPath_loop ?lb (CHR ''/'' # t) = t"
    unfolding t_eq by (rule loop_slash_idem)
  finally show ?thesis using b_fix bt by simp
qed

lemma loop_fixed:
  "\<not> sublist ''//'' xs \<Longrightarrow> (l = CHR ''/'' \<longrightarrow> xs = [] \<or> hd xs \<noteq> CHR ''/'') \<Longrightarrow>
     GetCanonicalPath_loop l xs = xs"
proof (induction xs arbitrary: l)
  case Nil
  then show ?case by simp
next
  case (Cons c xs)
  from Cons.prems(1) have n: "\<not> sublist ''//'' xs" and p: "\<not> prefix ''//'' (c # xs)"
    by (auto simp: sublist_Cons_right)
  from p have "c = CHR ''/'' \<longrightarrow> xs = [] \<or> hd xs \<noteq> CHR ''/''"
    by (cases xs) auto
  from Cons.IH [OF n this] Cons.prems(2) show ?case by auto
qed

lemma canon_length: "length (GetCanonicalPath b r) \<le> length b + 1 + length r"
proof -
  have "length (GetCanonicalPath b r) \<le> length (DM_SNPRINTF RESOURCE_PATH_MAX b r)"
    unfolding GetCanonicalPath_def by (rule loop_length)
  also have "\<dots> \<le> length b + 1 + length r" by (simp add: DM_SNPRINTF_def)
  finally show ?thesis .
qed

lemma strip_base_length:
  "strip_base b (GetCanonicalPath b r) = Some t \<Longrightarrow> length t \<le> length r + 1"
  using canon_length [of b r] by (auto simp: strip_base_def split: if_splits)

lemma canon_prefix:
  assumes "length b + 1 + length r < RESOURCE_PATH_MAX" and "\<not> sublist ''//'' b"
  shows "strip_base b (GetCanonicalPath b r) \<noteq> None"
proof -
  have "GetCanonicalPath b r =
      GetCanonicalPath_loop (CHR 0x00) b @
      GetCanonicalPath_loop (if b = [] then CHR 0x00 else last b) (CHR ''/'' # r)"
    using assms(1) by (simp add: GetCanonicalPath_def DM_SNPRINTF_fits loop_append)
  moreover have "GetCanonicalPath_loop (CHR 0x00) b = b"
    using assms(2) by (rule loop_fixed) simp
  ultimately show ?thesis by (simp add: strip_base_def)
qed

text \<open>
  C4, as the code has it. For a base and a relative name whose combined length (with
  the separator) is below \<open>RESOURCE_PATH_MAX\<close>, \<open>GetCanonicalPath\<close> yields
  \<open>base + "/" + rel\<close> with every run of \<open>/\<close> collapsed into one: it equals the
  specification's \<open>collapse_runs\<close> of that string, and no \<open>//\<close> is left in it. The
  function takes two strings and nothing else: it reads no file system.

  The base can be stripped from the result when it is a prefix of it, which it is when
  the base itself has no \<open>//\<close>; what remains is at most one character longer than the
  relative name. Canonicalising it again yields the same string provided it is, with the
  base and the separator, again shorter than \<open>RESOURCE_PATH_MAX\<close>. That can fail only
  when the first formatted string has exactly \<open>RESOURCE_PATH_MAX - 1\<close> characters.
\<close>

theorem GetCanonicalPath_collapses_runs:
  assumes "length base_dir + 1 + length relative_dir < RESOURCE_PATH_MAX"
  shows "GetCanonicalPath base_dir relative_dir = collapse_runs (base_dir @ ''/'' @ relative_dir)
       \<and> \<not> sublist ''//'' (GetCanonicalPath base_dir relative_dir)
       \<and> (\<not> sublist ''//'' base_dir \<longrightarrow>
            strip_base base_dir (GetCanonicalPath base_dir relative_dir) \<noteq> None)
       \<and> (\<forall>stripped.
            strip_base base_dir (GetCanonicalPath base_dir relative_dir) = Some stripped \<longrightarrow>
            length stripped \<le> length relative_dir + 1)
       \<and> (\<forall>stripped.
            strip_base base_dir (GetCanonicalPath base_dir relative_dir) = Some stripped \<and>
            length base_dir + 1 + length stripped < RESOURCE_PATH_MAX \<longrightarrow>
            GetCanonicalPath base_dir stripped = GetCanonicalPath base_dir relative_dir)"
  using assms canon_refines canon_no_double canon_idem canon_prefix strip_base_length by blast

theorem GetCanonicalPath_collapses_runs_witness:
  "length ''/tmp/data'' + 1 + length ''//sub///a.txt'' < RESOURCE_PATH_MAX
   \<and> GetCanonicalPath ''/tmp/data'' ''//sub///a.txt'' = ''/tmp/data/sub/a.txt''
   \<and> collapse_runs (''/tmp/data'' @ ''/'' @ ''//sub///a.txt'') = ''/tmp/data/sub/a.txt''
   \<and> strip_base ''/tmp/data'' (GetCanonicalPath ''/tmp/data'' ''//sub///a.txt'') = Some ''/sub/a.txt''
   \<and> GetCanonicalPath ''/tmp/data'' ''/sub/a.txt'' = GetCanonicalPath ''/tmp/data'' ''//sub///a.txt''"
proof -
  have fits: "length ''/tmp/data'' + 1 + length ''//sub///a.txt'' < RESOURCE_PATH_MAX"
    by (simp add: RESOURCE_PATH_MAX_def)
  have c: "GetCanonicalPath ''/tmp/data'' ''//sub///a.txt'' = ''/tmp/data/sub/a.txt''"
    by (simp add: GetCanonicalPath_def DM_SNPRINTF_def RESOURCE_PATH_MAX_def)
  have s: "strip_base ''/tmp/data'' (GetCanonicalPath ''/tmp/data'' ''//sub///a.txt'') =
      Some ''/sub/a.txt''"
    by (simp add: c strip_base_def)
  have fits2: "length ''/tmp/data'' + 1 + length ''/sub/a.txt'' < RESOURCE_PATH_MAX"
    by (simp add: RESOURCE_PATH_MAX_def)
  from GetCanonicalPath_collapses_runs [OF fits] s fits2 c fits show ?thesis
    by (metis (no_types))
qed

lemma loop_no_slash: "CHR ''/'' \<notin> set xs \<Longrightarrow> GetCanonicalPath_loop l xs = xs"
  by (induction xs arbitrary: l) auto

text \<open>The claim as stated fails on idempotence at the length bound. The base
  \<open>/tmp/data\<close> and a name of 1013 letters \<open>a\<close> format to 1023 characters, which fit.
  The canonical path without the base is \<open>/\<close> followed by the name; formatted with
  the base again it has 1024 characters, of which \<open>DM_SNPRINTF\<close> keeps 1023: the last
  letter is lost.\<close>

theorem GetCanonicalPath_idempotence_counterexample:
  "length ''/tmp/data'' + 1 + length (replicate 1013 (CHR ''a'')) < RESOURCE_PATH_MAX
   \<and> GetCanonicalPath ''/tmp/data'' (replicate 1013 (CHR ''a'')) =
       ''/tmp/data/'' @ replicate 1013 (CHR ''a'')
   \<and> strip_base ''/tmp/data'' (GetCanonicalPath ''/tmp/data'' (replicate 1013 (CHR ''a''))) =
       Some (CHR ''/'' # replicate 1013 (CHR ''a''))
   \<and> GetCanonicalPath ''/tmp/data'' (CHR ''/'' # replicate 1013 (CHR ''a'')) =
       ''/tmp/data/'' @ replicate 1012 (CHR ''a'')
   \<and> GetCanonicalPath ''/tmp/data'' (CHR ''/'' # replicate 1013 (CHR ''a'')) \<noteq>
       GetCanonicalPath ''/tmp/data'' (replicate 1013 (CHR ''a''))"
proof -
  define r where "r = replicate 1013 (CHR ''a'')"
  define r' where "r' = replicate 1012 (CHR ''a'')"
  have len: "length r = 1013" by (simp add: r_def)
  have ns: "CHR ''/'' \<notin> set r" "CHR ''/'' \<notin> set r'" by (simp_all add: r_def r'_def)
  have tk: "take 1012 r = r'" by (simp add: r_def r'_def)
  have fits: "length ''/tmp/data'' + 1 + length r < RESOURCE_PATH_MAX"
    by (simp add: len RESOURCE_PATH_MAX_def)
  have c1: "GetCanonicalPath ''/tmp/data'' r = ''/tmp/data/'' @ r"
    by (simp add: GetCanonicalPath_def DM_SNPRINTF_fits [OF fits] loop_no_slash [OF ns(1)])
  have s: "strip_base ''/tmp/data'' (GetCanonicalPath ''/tmp/data'' r) = Some (CHR ''/'' # r)"
    by (simp add: c1 strip_base_def)
  have cut: "DM_SNPRINTF RESOURCE_PATH_MAX ''/tmp/data'' (CHR ''/'' # r) = ''/tmp/data//'' @ r'"
    by (simp add: DM_SNPRINTF_def RESOURCE_PATH_MAX_def tk)
  have c2: "GetCanonicalPath ''/tmp/data'' (CHR ''/'' # r) = ''/tmp/data/'' @ r'"
    by (simp add: GetCanonicalPath_def cut loop_no_slash [OF ns(2)])
  have "r' \<noteq> r" by (simp add: r_def r'_def)
  then have ne: "GetCanonicalPath ''/tmp/data'' (CHR ''/'' # r) \<noteq> GetCanonicalPath ''/tmp/data'' r"
    by (simp add: c1 c2)
  from fits c1 s c2 ne show ?thesis unfolding r_def r'_def by (intro conjI)
qed

subsection \<open>The type registry\<close>

lemma strrchr_None: "strrchr s c = None \<longleftrightarrow> c \<notin> set s"
  by (induction s) (auto split: option.splits)

lemma FindResourceType_loop_None:
  "FindResourceType_loop rts i e = None \<longleftrightarrow> (\<forall>rt \<in> set rts. m_Extension rt \<noteq> e)"
  by (induction rts arbitrary: i) auto

lemma FindResourceType_loop_Some:
  "FindResourceType_loop rts i e = Some j \<Longrightarrow>
     i \<le> j \<and> j - i < length rts \<and> m_Extension (rts ! (j - i)) = e"
proof (induction rts arbitrary: i)
  case Nil
  then show ?case by simp
next
  case (Cons rt rts)
  show ?case
  proof (cases "e = m_Extension rt")
    case True
    with Cons.prems show ?thesis by simp
  next
    case False
    with Cons.prems have "FindResourceType_loop rts (Suc i) e = Some j" by simp
    from Cons.IH [OF this] have "Suc i \<le> j" "j - Suc i < length rts"
      "m_Extension (rts ! (j - Suc i)) = e" by auto
    moreover from \<open>Suc i \<le> j\<close> have "j - i = Suc (j - Suc i)" by arith
    ultimately show ?thesis by simp
  qed
qed

lemma FindResourceType_Some:
  "FindResourceType f e = Some j \<Longrightarrow>
     j < length (m_ResourceTypes f) \<and> m_Extension (m_ResourceTypes f ! j) = e"
  using FindResourceType_loop_Some [of "m_ResourceTypes f" 0 e j]
  by (simp add: FindResourceType_def)

text \<open>
  C8, as the code has it. The checks of \<open>RegisterType\<close> are made in a fixed order and the
  first that applies decides: a registry that holds 128 types gives
  \<open>FACTORY_RESULT_OUT_OF_RESOURCES\<close>; otherwise an extension with a \<open>.\<close>, or an absent
  create or destroy function, gives \<open>FACTORY_RESULT_INVAL\<close>; otherwise an extension that
  has an entry gives \<open>FACTORY_RESULT_ALREADY_REGISTERED\<close>; otherwise the type is appended
  and the result is \<open>FACTORY_RESULT_OK\<close>. Every refusal leaves the factory as it was.
\<close>

theorem RegisterType_checks_in_order:
  "RegisterType factory extension context create_function destroy_function recreate_function =
     (if length (m_ResourceTypes factory) = MAX_RESOURCE_TYPES
        then (FACTORY_RESULT_OUT_OF_RESOURCES, factory)
      else if CHR ''.'' \<in> set extension \<or> create_function = 0 \<or> destroy_function = 0
        then (FACTORY_RESULT_INVAL, factory)
      else if (\<exists>rt \<in> set (m_ResourceTypes factory). m_Extension rt = extension)
        then (FACTORY_RESULT_ALREADY_REGISTERED, factory)
      else (FACTORY_RESULT_OK,
            factory\<lparr>m_ResourceTypes := m_ResourceTypes factory @
              [\<lparr>m_Extension = extension, m_Context = context,
                m_CreateFunction = create_function, m_DestroyFunction = destroy_function,
                m_RecreateFunction = recreate_function\<rparr>]\<rparr>))"
  by (auto simp: RegisterType_def strrchr_None FindResourceType_def FindResourceType_loop_None)

text \<open>The claim as stated fails on a full registry: the extension \<open>a.b\<close> contains a \<open>.\<close>
  and the create function is absent, and the result is not \<open>FACTORY_RESULT_INVAL\<close>.\<close>

theorem RegisterType_full_registry_counterexample:
  "CHR ''.'' \<in> set ''a.b''
   \<and> fst (RegisterType example_full_factory ''a.b'' 0 0 2 0) = FACTORY_RESULT_OUT_OF_RESOURCES
   \<and> fst (RegisterType example_full_factory ''a.b'' 0 0 2 0) \<noteq> FACTORY_RESULT_INVAL"
  by (simp add: RegisterType_def example_full_factory_def MAX_RESOURCE_TYPES_def)

subsection \<open>What a load leaves alone\<close>

lemma load_frame_refl: "load_frame f f"
  by (simp add: load_frame_def)

lemma load_frame_trans: "load_frame f g \<Longrightarrow> load_frame g h \<Longrightarrow> load_frame f h"
  by (simp add: load_frame_def)

lemma HttpHeader_frame: "load_frame f (HttpHeader w f s k v)"
  by (simp add: load_frame_def HttpHeader_def Let_def)

lemma HttpContent_frame: "HttpContent f s d = Inr f' \<Longrightarrow> load_frame f f'"
  by (auto simp: load_frame_def HttpContent_def Let_def split: if_splits)

lemma http_callbacks_frame: "http_callbacks w f cs = Inr f' \<Longrightarrow> load_frame f f'"
proof (induction w f cs rule: http_callbacks.induct)
  case (1 w factory)
  then show ?case by (simp add: load_frame_refl)
next
  case (2 w factory status_code key val cs)
  then show ?case
    using HttpHeader_frame load_frame_trans by fastforce
next
  case (3 w factory status_code content_data cs)
  then show ?case
    by (auto split: sum.splits intro: load_frame_trans dest: HttpContent_frame)
qed

lemma LoadResource_archive_frame:
  "LoadResource_archive f n = Some (Inr (r, s, f', ev)) \<Longrightarrow>
     load_frame f f' \<and> (\<forall>e \<in> set ev. is_load_event e)"
  by (auto simp: LoadResource_archive_def Let_def load_frame_def split: option.splits if_splits)

lemma LoadResource_http_frame:
  assumes "LoadResource_http w f p = Inr (r, s, f', ev)"
  shows "load_frame f f' \<and> (\<forall>e \<in> set ev. is_load_event e)"
proof -
  let ?f0 = "f\<lparr>m_HttpContentLength := 0, m_HttpTotalBytesStreamed := 0,
                 m_HttpFactoryResult := FACTORY_RESULT_OK, m_HttpStatus := - 1\<rparr>"
  obtain calls hr where g: "dmHttpClient_Get w p = (calls, hr)" by (cases "dmHttpClient_Get w p")
  from assms g obtain f1 where f1: "http_callbacks w ?f0 calls = Inr f1"
    by (auto simp: LoadResource_http_def Let_def split: sum.splits)
  have "load_frame f ?f0" by (simp add: load_frame_def)
  with http_callbacks_frame [OF f1] have fr: "load_frame f f1" by (rule load_frame_trans [rotated])
  from assms g f1 have "load_frame f1 f' \<and> (\<forall>e \<in> set ev. is_load_event e)"
    by (auto simp: LoadResource_http_def Let_def load_frame_def split: if_splits)
  with fr show ?thesis by (auto intro: load_frame_trans)
qed

lemma LoadResource_file_frame:
  "LoadResource_file w f p = Inr (r, s, f', ev) \<Longrightarrow> load_frame f f' \<and> (\<forall>e \<in> set ev. is_load_event e)"
  by (auto simp: LoadResource_file_def Let_def load_frame_def split: option.splits if_splits)

lemma LoadResource_frame:
  assumes "LoadResource w f p n = Inr (r, s, f', ev)"
  shows "load_frame f f' \<and> (\<forall>e \<in> set ev. is_load_event e)"
proof (cases "LoadResource_archive f n")
  case (Some x)
  with assms show ?thesis
    using LoadResource_archive_frame [of f n r s f' ev] by (simp add: LoadResource_def)
next
  case None
  show ?thesis
  proof (cases "m_HttpClient f")
    case True
    with None assms obtain ev' where "LoadResource_http w f p = Inr (r, s, f', ev')"
      and "ev = (if m_BuiltinsArchive f \<noteq> None then [ArchiveFindEntry n] else []) @ ev'"
      by (auto simp: LoadResource_def split: sum.splits)
    then show ?thesis using LoadResource_http_frame [of w f p r s f' ev'] by auto
  next
    case False
    with None assms obtain ev' where "LoadResource_file w f p = Inr (r, s, f', ev')"
      and "ev = (if m_BuiltinsArchive f \<noteq> None then [ArchiveFindEntry n] else []) @ ev'"
      by (auto simp: LoadResource_def split: sum.splits)
    then show ?thesis using LoadResource_file_frame [of w f p r s f' ev'] by auto
  qed
qed

subsection \<open>Get\<close>

lemma Get_miss_ok:
  assumes miss: "m_Resources factory
       (dmHashBuffer64 w (GetCanonicalPath (m_UriParts_Path factory) name)) = None"
    and ok: "Get w factory name = Inr (FACTORY_RESULT_OK, resource, factory', ev)"
  shows "\<exists>dot i file_size f0 ev0.
      strrchr name (CHR ''.'') = Some dot \<and> FindResourceType factory (tl dot) = Some i \<and>
      LoadResource w factory (GetCanonicalPath (m_UriParts_Path factory) name) name =
        Inr (FACTORY_RESULT_OK, file_size, f0, ev0) \<and>
      resource \<noteq> 0 \<and>
      create_cb w (m_CreateFunction (m_ResourceTypes f0 ! i)) (m_Context (m_ResourceTypes f0 ! i))
        (m_StreamBuffer f0) file_size name = (CREATE_RESULT_OK, resource) \<and>
      factory' = f0
        \<lparr>m_Resources := (m_Resources f0)
           (dmHashBuffer64 w (GetCanonicalPath (m_UriParts_Path factory) name) \<mapsto>
             \<lparr>m_NameHash = dmHashBuffer64 w (GetCanonicalPath (m_UriParts_Path factory) name),
              m_Resource = resource, m_ResourceType = i, m_ReferenceCount = 1\<rparr>),
         m_ResourceToHash := (m_ResourceToHash f0)
           (resource \<mapsto> dmHashBuffer64 w (GetCanonicalPath (m_UriParts_Path factory) name)),
         m_ResourceHashToFilename :=
           (case m_ResourceHashToFilename f0 of
              None \<Rightarrow> None
            | Some t \<Rightarrow> Some (t(dmHashBuffer64 w (GetCanonicalPath (m_UriParts_Path factory) name)
                 \<mapsto> GetCanonicalPath (m_UriParts_Path factory) name)))\<rparr> \<and>
      ev = ev0 @ [CallCreate (m_CreateFunction (m_ResourceTypes f0 ! i))
                    (m_Context (m_ResourceTypes f0 ! i))
                    (take (unat file_size) (m_StreamBuffer f0)) name]"
proof -
  let ?c = "GetCanonicalPath (m_UriParts_Path factory) name"
  from miss ok obtain dot where dot: "strrchr name (CHR ''.'') = Some dot"
    by (auto simp: Get_def Let_def split: option.splits)
  from miss ok dot obtain i where i: "FindResourceType factory (tl dot) = Some i"
    by (auto simp: Get_def Let_def split: option.splits)
  from miss ok dot i obtain file_size f0 ev0 where
    l: "LoadResource w factory ?c name = Inr (FACTORY_RESULT_OK, file_size, f0, ev0)"
    by (auto simp: Get_def Let_def split: sum.splits if_splits)
  from miss ok dot i l have
    c: "Get_create w f0 name ?c (dmHashBuffer64 w ?c) i file_size ev0 =
          Inr (FACTORY_RESULT_OK, resource, factory', ev)"
    by (simp add: Get_def Let_def)
  obtain ce r where cb: "create_cb w (m_CreateFunction (m_ResourceTypes f0 ! i))
      (m_Context (m_ResourceTypes f0 ! i)) (m_StreamBuffer f0) file_size name = (ce, r)"
    by (cases "create_cb w (m_CreateFunction (m_ResourceTypes f0 ! i))
      (m_Context (m_ResourceTypes f0 ! i)) (m_StreamBuffer f0) file_size name")
  from c cb have "ce = CREATE_RESULT_OK" "r = resource" "resource \<noteq> 0"
    by (auto simp: Get_create_def Let_def split: if_splits)
  with c cb dot i l show ?thesis
    by (simp add: Get_create_def Let_def)
qed

lemma Get_not_ok_frame:
  assumes "Get w factory name = Inr (result, resource, factory', ev)"
    and "result \<noteq> FACTORY_RESULT_OK"
  shows "load_frame factory factory'"
  using assms
  by (auto simp: Get_def Get_create_def Let_def load_frame_refl
      split: option.splits sum.splits if_splits prod.splits dest!: LoadResource_frame)

text \<open>
  C2. Whatever \<open>Get\<close> returns other than \<open>FACTORY_RESULT_OK\<close> (a missing file extension, an
  unknown resource type, an error of the load, a failure of the create function), the
  three tables \<open>m_Resources\<close>, \<open>m_ResourceToHash\<close> and \<open>m_ResourceHashToFilename\<close> are
  what they were before the call. When it returns \<open>FACTORY_RESULT_OK\<close> for a name that was
  not in \<open>m_Resources\<close>, all tables hold the new descriptor: \<open>m_Resources\<close> maps the name
  hash to a descriptor with that hash, the returned address, the type found for the
  extension and reference count 1; \<open>m_ResourceToHash\<close> maps the returned address to the
  hash; and \<open>m_ResourceHashToFilename\<close>, where the factory has it, maps the hash to the
  canonical path. Nothing else changes in them.
\<close>

theorem Get_tables_atomic:
  assumes "Get w factory name = Inr (result, resource, factory', ev)"
  shows "(result \<noteq> FACTORY_RESULT_OK \<longrightarrow>
            m_Resources factory' = m_Resources factory \<and>
            m_ResourceToHash factory' = m_ResourceToHash factory \<and>
            m_ResourceHashToFilename factory' = m_ResourceHashToFilename factory)
       \<and> (result = FACTORY_RESULT_OK \<and>
          m_Resources factory
            (dmHashBuffer64 w (GetCanonicalPath (m_UriParts_Path factory) name)) = None \<longrightarrow>
            (\<exists>dot i. strrchr name (CHR ''.'') = Some dot \<and>
               FindResourceType factory (tl dot) = Some i \<and>
               m_Resources factory' = (m_Resources factory)
                 (dmHashBuffer64 w (GetCanonicalPath (m_UriParts_Path factory) name) \<mapsto>
                   \<lparr>m_NameHash =
                      dmHashBuffer64 w (GetCanonicalPath (m_UriParts_Path factory) name),
                    m_Resource = resource, m_ResourceType = i, m_ReferenceCount = 1\<rparr>)) \<and>
            m_ResourceToHash factory' = (m_ResourceToHash factory)
              (resource \<mapsto> dmHashBuffer64 w (GetCanonicalPath (m_UriParts_Path factory) name)) \<and>
            m_ResourceHashToFilename factory' =
              (case m_ResourceHashToFilename factory of
                 None \<Rightarrow> None
               | Some t \<Rightarrow>
                  Some (t(dmHashBuffer64 w (GetCanonicalPath (m_UriParts_Path factory) name)
                    \<mapsto> GetCanonicalPath (m_UriParts_Path factory) name))))"
proof -
  let ?c = "GetCanonicalPath (m_UriParts_Path factory) name"
  let ?h = "dmHashBuffer64 w ?c"
  have fail: "m_Resources factory' = m_Resources factory \<and>
      m_ResourceToHash factory' = m_ResourceToHash factory \<and>
      m_ResourceHashToFilename factory' = m_ResourceHashToFilename factory"
    if "result \<noteq> FACTORY_RESULT_OK"
  proof -
    from assms that have "load_frame factory factory'" by (rule Get_not_ok_frame)
    then show ?thesis by (simp add: load_frame_def)
  qed
  have succeed: "(\<exists>dot i. strrchr name (CHR ''.'') = Some dot \<and>
               FindResourceType factory (tl dot) = Some i \<and>
               m_Resources factory' = (m_Resources factory)
                 (?h \<mapsto> \<lparr>m_NameHash = ?h, m_Resource = resource, m_ResourceType = i,
                          m_ReferenceCount = 1\<rparr>)) \<and>
            m_ResourceToHash factory' = (m_ResourceToHash factory)(resource \<mapsto> ?h) \<and>
            m_ResourceHashToFilename factory' =
              (case m_ResourceHashToFilename factory of
                 None \<Rightarrow> None
               | Some t \<Rightarrow> Some (t(?h \<mapsto> ?c)))"
    if a: "result = FACTORY_RESULT_OK \<and> m_Resources factory ?h = None"
  proof -
    from a assms have ok: "Get w factory name = Inr (FACTORY_RESULT_OK, resource, factory', ev)"
      by simp
    from Get_miss_ok [OF conjunct2 [OF a] ok] obtain dot i file_size f0 ev0 where
      s: "strrchr name (CHR ''.'') = Some dot" "FindResourceType factory (tl dot) = Some i"
      and l: "LoadResource w factory ?c name = Inr (FACTORY_RESULT_OK, file_size, f0, ev0)"
      and f: "factory' = f0
          \<lparr>m_Resources := (m_Resources f0)
             (?h \<mapsto> \<lparr>m_NameHash = ?h, m_Resource = resource, m_ResourceType = i,
                      m_ReferenceCount = 1\<rparr>),
           m_ResourceToHash := (m_ResourceToHash f0)(resource \<mapsto> ?h),
           m_ResourceHashToFilename :=
             (case m_ResourceHashToFilename f0 of
                None \<Rightarrow> None
              | Some t \<Rightarrow> Some (t(?h \<mapsto> ?c)))\<rparr>"
      by blast
    from LoadResource_frame [OF l] have fr: "load_frame factory f0" by simp
    from s f fr show ?thesis by (simp add: load_frame_def)
  qed
  from fail succeed show ?thesis by blast
qed

theorem Get_tables_atomic_witness:
  "Get example_world example_factory ''a.txt'' =
       Inr (FACTORY_RESULT_OK, 4096, example_loaded,
            [FileOpen ''/tmp/data/a.txt'', CallCreate 1 7 ''hello'' ''a.txt''])
   \<and> m_Resources example_factory
       (dmHashBuffer64 example_world
         (GetCanonicalPath (m_UriParts_Path example_factory) ''a.txt'')) = None
   \<and> m_ResourceToHash example_loaded = (m_ResourceToHash example_factory)
        (4096 \<mapsto> dmHashBuffer64 example_world
           (GetCanonicalPath (m_UriParts_Path example_factory) ''a.txt''))
   \<and> m_ResourceHashToFilename example_loaded =
        (case m_ResourceHashToFilename example_factory of
           None \<Rightarrow> None
         | Some t \<Rightarrow>
            Some (t(dmHashBuffer64 example_world
                      (GetCanonicalPath (m_UriParts_Path example_factory) ''a.txt'')
              \<mapsto> GetCanonicalPath (m_UriParts_Path example_factory) ''a.txt'')))
   \<and> Get example_world example_factory ''a'' =
     Inr (FACTORY_RESULT_MISSING_FILE_EXTENSION, 0, example_factory,
          [Log LOG_SEVERITY_WARNING ''Unable to load resource: %s. Missing file extension.''])
   \<and> FACTORY_RESULT_MISSING_FILE_EXTENSION \<noteq> FACTORY_RESULT_OK"
proof -
  have ne: "FACTORY_RESULT_MISSING_FILE_EXTENSION \<noteq> FACTORY_RESULT_OK" by simp
  from Get_tables_atomic [OF example_get] example_hash_miss example_get
    example_get_no_extension ne
  show ?thesis by (intro conjI) blast+
qed

subsection \<open>Reference counting\<close>

lemma with_descriptor_sels:
  "m_Resources (with_descriptor f h rd) = (m_Resources f)(h \<mapsto> rd)"
  "m_ResourceToHash (with_descriptor f h rd) = m_ResourceToHash f"
  "m_ResourceHashToFilename (with_descriptor f h rd) = m_ResourceHashToFilename f"
  "m_ResourceTypes (with_descriptor f h rd) = m_ResourceTypes f"
  "m_UriParts_Path (with_descriptor f h rd) = m_UriParts_Path f"
  by (simp_all add: with_descriptor_def)

lemma with_descriptor_twice:
  "with_descriptor (with_descriptor f h a) h b = with_descriptor f h b"
  by (simp add: with_descriptor_def)

lemma with_descriptor_same: "m_Resources f h = Some rd \<Longrightarrow> with_descriptor f h rd = f"
  by (simp add: with_descriptor_def map_upd_triv)

lemma Get_hit:
  assumes "dmHashBuffer64 w (GetCanonicalPath (m_UriParts_Path f) name) = h"
    and "m_Resources f h = Some rd"
    and "m_ResourceToHash f (m_Resource rd) \<noteq> None"
  shows "Get w f name =
     Inr (FACTORY_RESULT_OK, m_Resource rd,
          with_descriptor f h (rd\<lparr>m_ReferenceCount := m_ReferenceCount rd + 1\<rparr>), [])"
  using assms by (auto simp: Get_def Let_def with_descriptor_def)

lemma Get_times_hit:
  assumes "dmHashBuffer64 w (GetCanonicalPath (m_UriParts_Path f) name) = h"
    and "m_Resources f h = Some rd"
    and "m_ResourceToHash f (m_Resource rd) \<noteq> None"
  shows "Get_times w f name n =
     Inr (replicate n (FACTORY_RESULT_OK, m_Resource rd),
          with_descriptor f h (rd\<lparr>m_ReferenceCount := m_ReferenceCount rd + of_nat n\<rparr>), [])"
  using assms
proof (induction n arbitrary: f rd)
  case 0
  then show ?case by (simp add: with_descriptor_same)
next
  case (Suc n)
  let ?rd1 = "rd\<lparr>m_ReferenceCount := m_ReferenceCount rd + 1\<rparr>"
  let ?f1 = "with_descriptor f h ?rd1"
  have g: "Get w f name = Inr (FACTORY_RESULT_OK, m_Resource rd, ?f1, [])"
    using Suc.prems by (rule Get_hit)
  have "Get_times w ?f1 name n =
     Inr (replicate n (FACTORY_RESULT_OK, m_Resource ?rd1),
          with_descriptor ?f1 h (?rd1\<lparr>m_ReferenceCount := m_ReferenceCount ?rd1 + of_nat n\<rparr>), [])"
    using Suc.prems by (intro Suc.IH) (simp_all add: with_descriptor_sels)
  with g show ?case by (simp add: with_descriptor_twice add.assoc)
qed

lemma Release_keep:
  assumes "m_ResourceToHash f r = Some h" and "m_Resources f h = Some rd"
    and "1 < unat (m_ReferenceCount rd)"
  shows "Release w f r =
     Inr (with_descriptor f h (rd\<lparr>m_ReferenceCount := m_ReferenceCount rd - 1\<rparr>), [])"
proof -
  from assms(3) have "m_ReferenceCount rd \<noteq> 0" "m_ReferenceCount rd \<noteq> 1" by auto
  then have "0 < m_ReferenceCount rd" "m_ReferenceCount rd - 1 \<noteq> 0"
    by (simp_all add: word_neq_0_conv)
  with assms show ?thesis by (simp add: Release_def Let_def with_descriptor_def)
qed

lemma Release_times_keep:
  assumes "m_ResourceToHash f r = Some h" and "m_Resources f h = Some rd"
    and "n < unat (m_ReferenceCount rd)"
  shows "Release_times w f r n =
     Inr (with_descriptor f h (rd\<lparr>m_ReferenceCount := m_ReferenceCount rd - of_nat n\<rparr>), [])"
  using assms
proof (induction n arbitrary: f rd)
  case 0
  then show ?case by (simp add: with_descriptor_same)
next
  case (Suc n)
  let ?rd1 = "rd\<lparr>m_ReferenceCount := m_ReferenceCount rd - 1\<rparr>"
  let ?f1 = "with_descriptor f h ?rd1"
  from Suc.prems have gt: "1 < unat (m_ReferenceCount rd)" by simp
  have r1: "Release w f r = Inr (?f1, [])"
    using Suc.prems(1,2) gt by (rule Release_keep)
  from gt have "m_ReferenceCount rd \<noteq> 0" by auto
  then have "unat (m_ReferenceCount rd - 1) = unat (m_ReferenceCount rd) - 1"
    by (simp add: unat_minus_one)
  with Suc.prems have "n < unat (m_ReferenceCount ?rd1)" by simp
  then have "Release_times w ?f1 r n =
     Inr (with_descriptor ?f1 h (?rd1\<lparr>m_ReferenceCount := m_ReferenceCount ?rd1 - of_nat n\<rparr>), [])"
    using Suc.prems by (intro Suc.IH) (simp_all add: with_descriptor_sels)
  with r1 show ?case by (simp add: with_descriptor_twice diff_diff_eq)
qed

lemma Release_last:
  assumes "m_ResourceToHash f r = Some h" and "m_Resources f h = Some rd"
    and "m_ReferenceCount rd = 1"
    and "resource_type_at f (m_ResourceType rd) = Some rt"
    and "case m_ResourceHashToFilename f of None \<Rightarrow> True | Some t \<Rightarrow> t h \<noteq> None"
  shows "Release w f r =
     Inr (f\<lparr>m_Resources := (m_Resources f)(h := None),
            m_ResourceToHash := (m_ResourceToHash f)(r := None),
            m_ResourceHashToFilename :=
              (case m_ResourceHashToFilename f of
                 None \<Rightarrow> None | Some t \<Rightarrow> Some (t(h := None)))\<rparr>,
          [CallDestroy (m_DestroyFunction rt) (m_Context rt) (rd\<lparr>m_ReferenceCount := 0\<rparr>)])"
  using assms
  by (auto simp: Release_def Let_def resource_type_at_def split: option.splits if_splits)

lemma Release_times_snoc:
  "Release_times w f r (Suc n) =
     (case Release_times w f r n of
        Inl e \<Rightarrow> Inl e
      | Inr (f', evs) \<Rightarrow>
         (case Release w f' r of
            Inl e \<Rightarrow> Inl e
          | Inr (f'', ev) \<Rightarrow> Inr (f'', evs @ ev)))"
proof (induction n arbitrary: f)
  case 0
  show ?case by (simp split: sum.splits prod.splits)
next
  case (Suc n)
  show ?case
    apply (subst Release_times.simps(2))
    apply (subst Suc.IH)
    apply (simp split: sum.splits prod.splits)
    done
qed

lemma load_event_not_create: "is_load_event e \<Longrightarrow> \<not> is_CallCreate e"
  by (cases e) simp_all

lemma load_events_no_create: "\<forall>e \<in> set ev. is_load_event e \<Longrightarrow> filter is_CallCreate ev = []"
  by (induction ev) (auto dest: load_event_not_create)

text \<open>
  C1. Take a name that is not in \<open>m_Resources\<close> and whose first \<open>Get\<close> succeeds, with the
  address \<open>resource\<close> and the events \<open>ev1\<close>, and let \<open>0 < N < 2^32\<close> (the reference count
  is a 32-bit counter). Then \<open>N\<close> calls of \<open>Get\<close> all return \<open>FACTORY_RESULT_OK\<close> and
  that same address; the only events are those of the first call, among them exactly one
  call of the create function; the reference count is then \<open>N\<close>. The first \<open>N - 1\<close> calls
  of \<open>Release\<close> on the address call nothing and lead back to the factory after the first
  \<open>Get\<close>, the descriptor still interned with count 1. The \<open>N\<close>-th \<open>Release\<close> calls the
  destroy function of the descriptor's type, once, on the descriptor with count 0. After
  it \<open>m_Resources\<close> has no entry for the name hash, \<open>m_ResourceToHash\<close> none for the
  address and \<open>m_ResourceHashToFilename\<close> none for the name hash. So the \<open>N\<close> releases
  together call destroy exactly once.
\<close>

theorem Get_Release_lifecycle:
  assumes miss: "m_Resources factory
       (dmHashBuffer64 w (GetCanonicalPath (m_UriParts_Path factory) name)) = None"
    and first: "Get w factory name = Inr (FACTORY_RESULT_OK, resource, factory1, ev1)"
    and N: "0 < N" "N < 2 ^ 32"
  shows "\<exists>factoryN factoryE rd resource_type.
      Get_times w factory name N =
        Inr (replicate N (FACTORY_RESULT_OK, resource), factoryN, ev1)
    \<and> length (filter is_CallCreate ev1) = 1
    \<and> m_Resources factoryN
         (dmHashBuffer64 w (GetCanonicalPath (m_UriParts_Path factory) name)) = Some rd
    \<and> m_Resource rd = resource \<and> m_ReferenceCount rd = of_nat N
    \<and> Release_times w factoryN resource (N - 1) = Inr (factory1, [])
    \<and> m_Resources factory1
         (dmHashBuffer64 w (GetCanonicalPath (m_UriParts_Path factory) name)) =
         Some (rd\<lparr>m_ReferenceCount := 1\<rparr>)
    \<and> resource_type_at factory (m_ResourceType rd) = Some resource_type
    \<and> Release w factory1 resource =
         Inr (factoryE, [CallDestroy (m_DestroyFunction resource_type) (m_Context resource_type)
                           (rd\<lparr>m_ReferenceCount := 0\<rparr>)])
    \<and> Release_times w factoryN resource N =
         Inr (factoryE, [CallDestroy (m_DestroyFunction resource_type) (m_Context resource_type)
                           (rd\<lparr>m_ReferenceCount := 0\<rparr>)])
    \<and> m_Resources factoryE
         (dmHashBuffer64 w (GetCanonicalPath (m_UriParts_Path factory) name)) = None
    \<and> m_ResourceToHash factoryE resource = None
    \<and> (case m_ResourceHashToFilename factoryE of
          None \<Rightarrow> True
        | Some t \<Rightarrow> t (dmHashBuffer64 w (GetCanonicalPath (m_UriParts_Path factory) name)) = None)"
proof -
  let ?c = "GetCanonicalPath (m_UriParts_Path factory) name"
  define h where "h = dmHashBuffer64 w ?c"
  from Get_miss_ok [OF miss first] obtain dot i file_size f0 ev0 where
    i: "FindResourceType factory (tl dot) = Some i"
    and l: "LoadResource w factory ?c name = Inr (FACTORY_RESULT_OK, file_size, f0, ev0)"
    and nz: "resource \<noteq> 0"
    and f1: "factory1 = f0
        \<lparr>m_Resources := (m_Resources f0)
           (h \<mapsto> \<lparr>m_NameHash = h, m_Resource = resource, m_ResourceType = i,
                    m_ReferenceCount = 1\<rparr>),
         m_ResourceToHash := (m_ResourceToHash f0)(resource \<mapsto> h),
         m_ResourceHashToFilename :=
           (case m_ResourceHashToFilename f0 of
              None \<Rightarrow> None | Some t \<Rightarrow> Some (t(h \<mapsto> ?c)))\<rparr>"
    and ev1: "ev1 = ev0 @ [CallCreate (m_CreateFunction (m_ResourceTypes f0 ! i))
                    (m_Context (m_ResourceTypes f0 ! i))
                    (take (unat file_size) (m_StreamBuffer f0)) name]"
    unfolding h_def by blast
  let ?tmp = "\<lparr>m_NameHash = h, m_Resource = resource, m_ResourceType = i,
               m_ReferenceCount = 1\<rparr>"
  from LoadResource_frame [OF l] have fr: "load_frame factory f0"
    and evs: "\<forall>e \<in> set ev0. is_load_event e" by simp_all
  have path1: "m_UriParts_Path factory1 = m_UriParts_Path factory"
    and types1: "m_ResourceTypes factory1 = m_ResourceTypes factory"
    using f1 fr by (simp_all add: load_frame_def)
  have res1: "m_Resources factory1 h = Some ?tmp"
    and addr1: "m_ResourceToHash factory1 resource = Some h"
    using f1 by simp_all
  have file1: "case m_ResourceHashToFilename factory1 of None \<Rightarrow> True | Some t \<Rightarrow> t h \<noteq> None"
    using f1 by (simp split: option.splits)
  from FindResourceType_Some [OF i] have ty: "resource_type_at factory1 i =
      Some (m_ResourceTypes factory ! i)"
    "resource_type_at factory i = Some (m_ResourceTypes factory ! i)"
    by (simp_all add: resource_type_at_def types1)
  let ?rdN = "?tmp\<lparr>m_ReferenceCount := of_nat N\<rparr>"
  let ?fN = "with_descriptor factory1 h ?rdN"
  from N obtain m where m: "N = Suc m" by (cases N) auto
  have hash1: "dmHashBuffer64 w (GetCanonicalPath (m_UriParts_Path factory1) name) = h"
    by (simp add: path1 h_def)
  have "Get_times w factory1 name m =
      Inr (replicate m (FACTORY_RESULT_OK, m_Resource ?tmp),
           with_descriptor factory1 h
             (?tmp\<lparr>m_ReferenceCount := m_ReferenceCount ?tmp + of_nat m\<rparr>), [])"
    using hash1 res1 by (rule Get_times_hit) (simp add: addr1)
  then have gets: "Get_times w factory name N =
      Inr (replicate N (FACTORY_RESULT_OK, resource), ?fN, ev1)"
    using first by (simp add: m)
  have created: "length (filter is_CallCreate ev1) = 1"
    using evs by (simp add: ev1 load_events_no_create)
  have resN: "m_Resources ?fN h = Some ?rdN" and addrN: "m_ResourceToHash ?fN resource = Some h"
    by (simp_all add: with_descriptor_sels addr1)
  have unatN: "unat (of_nat N :: uint32_t) = N"
    using N by (simp add: unat_of_nat)
  have "m_ReferenceCount ?rdN = of_nat N" by simp
  with unatN have lt: "m < unat (m_ReferenceCount ?rdN)" by (simp only: m)
  have "Release_times w ?fN resource m =
      Inr (with_descriptor ?fN h (?rdN\<lparr>m_ReferenceCount := m_ReferenceCount ?rdN - of_nat m\<rparr>), [])"
    using addrN resN lt by (rule Release_times_keep)
  moreover have "with_descriptor ?fN h (?rdN\<lparr>m_ReferenceCount := m_ReferenceCount ?rdN - of_nat m\<rparr>)
      = factory1"
    using res1 by (simp add: with_descriptor_twice m with_descriptor_same)
  ultimately have rel: "Release_times w ?fN resource m = Inr (factory1, [])" by simp
  let ?fE = "factory1\<lparr>m_Resources := (m_Resources factory1)(h := None),
            m_ResourceToHash := (m_ResourceToHash factory1)(resource := None),
            m_ResourceHashToFilename :=
              (case m_ResourceHashToFilename factory1 of
                 None \<Rightarrow> None | Some t \<Rightarrow> Some (t(h := None)))\<rparr>"
  let ?ev = "[CallDestroy (m_DestroyFunction (m_ResourceTypes factory ! i))
      (m_Context (m_ResourceTypes factory ! i)) (?tmp\<lparr>m_ReferenceCount := 0\<rparr>)]"
  have last: "Release w factory1 resource = Inr (?fE, ?ev)"
    using addr1 res1 _ _ file1 by (rule Release_last) (simp_all add: ty)
  have "Release_times w ?fN resource (Suc m) = Inr (?fE, ?ev)"
    using rel last by (subst Release_times_snoc) simp
  then have all: "Release_times w ?fN resource N = Inr (?fE, ?ev)"
    by (simp only: m)
  have gone: "m_Resources ?fE h = None" "m_ResourceToHash ?fE resource = None"
    "case m_ResourceHashToFilename ?fE of None \<Rightarrow> True | Some t \<Rightarrow> t h = None"
    by (simp_all split: option.splits)
  have "Get_times w factory name N =
        Inr (replicate N (FACTORY_RESULT_OK, resource), ?fN, ev1)
    \<and> length (filter is_CallCreate ev1) = 1
    \<and> m_Resources ?fN h = Some ?rdN
    \<and> m_Resource ?rdN = resource \<and> m_ReferenceCount ?rdN = of_nat N
    \<and> Release_times w ?fN resource (N - 1) = Inr (factory1, [])
    \<and> m_Resources factory1 h = Some (?rdN\<lparr>m_ReferenceCount := 1\<rparr>)
    \<and> resource_type_at factory (m_ResourceType ?rdN) = Some (m_ResourceTypes factory ! i)
    \<and> Release w factory1 resource =
         Inr (?fE, [CallDestroy (m_DestroyFunction (m_ResourceTypes factory ! i))
                      (m_Context (m_ResourceTypes factory ! i))
                      (?rdN\<lparr>m_ReferenceCount := 0\<rparr>)])
    \<and> Release_times w ?fN resource N =
         Inr (?fE, [CallDestroy (m_DestroyFunction (m_ResourceTypes factory ! i))
                      (m_Context (m_ResourceTypes factory ! i))
                      (?rdN\<lparr>m_ReferenceCount := 0\<rparr>)])
    \<and> m_Resources ?fE h = None
    \<and> m_ResourceToHash ?fE resource = None
    \<and> (case m_ResourceHashToFilename ?fE of None \<Rightarrow> True | Some t \<Rightarrow> t h = None)"
    using gets created resN rel res1 ty(2) last all gone by (simp add: m)
  then show ?thesis unfolding h_def by blast
qed

theorem Get_Release_lifecycle_witness:
  "m_Resources example_factory
       (dmHashBuffer64 example_world
         (GetCanonicalPath (m_UriParts_Path example_factory) ''a.txt'')) = None
   \<and> Get example_world example_factory ''a.txt'' =
       Inr (FACTORY_RESULT_OK, 4096, example_loaded,
            [FileOpen ''/tmp/data/a.txt'', CallCreate 1 7 ''hello'' ''a.txt''])
   \<and> (0::nat) < 2 \<and> (2::nat) < 2 ^ 32
   \<and> (\<exists>factoryN factoryE rd resource_type.
      Get_times example_world example_factory ''a.txt'' 2 =
        Inr (replicate 2 (FACTORY_RESULT_OK, 4096), factoryN,
             [FileOpen ''/tmp/data/a.txt'', CallCreate 1 7 ''hello'' ''a.txt''])
    \<and> length (filter is_CallCreate
          [FileOpen ''/tmp/data/a.txt'', CallCreate 1 7 ''hello'' ''a.txt'']) = 1
    \<and> m_Resources factoryN
         (dmHashBuffer64 example_world
           (GetCanonicalPath (m_UriParts_Path example_factory) ''a.txt'')) = Some rd
    \<and> m_Resource rd = 4096 \<and> m_ReferenceCount rd = of_nat 2
    \<and> Release_times example_world factoryN 4096 (2 - 1) = Inr (example_loaded, [])
    \<and> m_Resources example_loaded
         (dmHashBuffer64 example_world
           (GetCanonicalPath (m_UriParts_Path example_factory) ''a.txt'')) =
         Some (rd\<lparr>m_ReferenceCount := 1\<rparr>)
    \<and> resource_type_at example_factory (m_ResourceType rd) = Some resource_type
    \<and> Release example_world example_loaded 4096 =
         Inr (factoryE, [CallDestroy (m_DestroyFunction resource_type) (m_Context resource_type)
                           (rd\<lparr>m_ReferenceCount := 0\<rparr>)])
    \<and> Release_times example_world factoryN 4096 2 =
         Inr (factoryE, [CallDestroy (m_DestroyFunction resource_type) (m_Context resource_type)
                           (rd\<lparr>m_ReferenceCount := 0\<rparr>)])
    \<and> m_Resources factoryE
         (dmHashBuffer64 example_world
           (GetCanonicalPath (m_UriParts_Path example_factory) ''a.txt'')) = None
    \<and> m_ResourceToHash factoryE 4096 = None
    \<and> (case m_ResourceHashToFilename factoryE of
          None \<Rightarrow> True
        | Some t \<Rightarrow> t (dmHashBuffer64 example_world
            (GetCanonicalPath (m_UriParts_Path example_factory) ''a.txt'')) = None))"
proof -
  have n: "(0::nat) < 2" "(2::nat) < 2 ^ 32" by simp_all
  from Get_Release_lifecycle [OF example_hash_miss example_get n] example_hash_miss example_get n
  show ?thesis by (intro conjI)
qed

subsection \<open>ReloadResource\<close>

lemma notify_reloaded_events:
  "e \<in> set (notify_reloaded pairs rd name) \<Longrightarrow> is_CallReloaded e"
  by (induction pairs) auto

lemma load_event_kinds:
  "is_load_event e \<Longrightarrow> \<not> is_CallDestroy e \<and> \<not> is_CallReloaded e \<and>
     (\<forall>fn context buffer rd name. e \<noteq> CallRecreate fn context buffer rd name)"
  by (cases e) simp_all

lemma ReloadResource_cases:
  assumes "ReloadResource w factory name = Inr (result, out_descriptor, factory', ev)"
  shows "out_descriptor =
           m_Resources factory (dmHashBuffer64 w (GetCanonicalPath (m_UriParts_Path factory) name))
       \<and> load_frame factory factory'
       \<and> (\<exists>ev0 rest. ev = ev0 @ rest \<and> (\<forall>e \<in> set ev0. is_load_event e) \<and>
            (rest = [] \<and> result \<noteq> RELOAD_RESULT_OK \<or>
             (\<exists>rd resource_type content.
                out_descriptor = Some rd \<and>
                resource_type_at factory (m_ResourceType rd) = Some resource_type \<and>
                rest = CallRecreate (m_RecreateFunction resource_type) (m_Context resource_type)
                         content rd name #
                       (if result = RELOAD_RESULT_OK
                        then (case m_ResourceReloadedCallbacks factory of
                                None \<Rightarrow> [] | Some pairs \<Rightarrow> notify_reloaded pairs rd name)
                        else []))))"
proof -
  let ?h = "dmHashBuffer64 w (GetCanonicalPath (m_UriParts_Path factory) name)"
  show ?thesis
  proof (cases "m_Resources factory ?h")
    case None
    with assms show ?thesis by (auto simp: ReloadResource_def Let_def load_frame_refl)
  next
    case (Some rd)
    with assms obtain rt where rt: "resource_type_at factory (m_ResourceType rd) = Some rt"
      by (auto simp: ReloadResource_def Let_def split: option.splits)
    show ?thesis
    proof (cases "m_RecreateFunction rt = 0")
      case True
      with assms Some rt show ?thesis by (auto simp: ReloadResource_def Let_def load_frame_refl)
    next
      case False
      with assms Some rt obtain r fs f1 ev0 where
        l: "LoadResource w factory (GetCanonicalPath (m_UriParts_Path factory) name) name =
              Inr (r, fs, f1, ev0)"
        by (auto simp: ReloadResource_def Let_def split: sum.splits)
      from LoadResource_frame [OF l] have fr: "load_frame factory f1"
        and evs: "\<forall>e \<in> set ev0. is_load_event e" by simp_all
      show ?thesis
      proof (cases "r = FACTORY_RESULT_OK")
        case False
        with assms Some rt \<open>m_RecreateFunction rt \<noteq> 0\<close> l fr evs show ?thesis
          by (auto simp: ReloadResource_def Let_def)
      next
        case True
        with assms Some rt \<open>m_RecreateFunction rt \<noteq> 0\<close> l have
          f': "factory' = f1" and od: "out_descriptor = Some rd"
          and ev: "ev = ev0 @ CallRecreate (m_RecreateFunction rt) (m_Context rt)
                         (take (unat fs) (m_StreamBuffer f1)) rd name #
                       (if result = RELOAD_RESULT_OK
                        then (case m_ResourceReloadedCallbacks f1 of
                                None \<Rightarrow> [] | Some pairs \<Rightarrow> notify_reloaded pairs rd name)
                        else [])"
          by (auto simp: ReloadResource_def Let_def split: if_splits)
            (cases "recreate_cb w (m_RecreateFunction rt) (m_Context rt) (m_StreamBuffer f1) fs rd name"; simp)+
        from fr have cb: "m_ResourceReloadedCallbacks f1 = m_ResourceReloadedCallbacks factory"
          by (simp add: load_frame_def)
        let ?rest = "CallRecreate (m_RecreateFunction rt) (m_Context rt)
                         (take (unat fs) (m_StreamBuffer factory')) rd name #
                       (if result = RELOAD_RESULT_OK
                        then (case m_ResourceReloadedCallbacks factory of
                                None \<Rightarrow> [] | Some pairs \<Rightarrow> notify_reloaded pairs rd name)
                        else [])"
        have "\<exists>rd' resource_type content.
                out_descriptor = Some rd' \<and>
                resource_type_at factory (m_ResourceType rd') = Some resource_type \<and>
                ?rest = CallRecreate (m_RecreateFunction resource_type) (m_Context resource_type)
                         content rd' name #
                       (if result = RELOAD_RESULT_OK
                        then (case m_ResourceReloadedCallbacks factory of
                                None \<Rightarrow> [] | Some pairs \<Rightarrow> notify_reloaded pairs rd' name)
                        else [])"
          using od rt
          by (rule_tac x = rd in exI, rule_tac x = rt in exI,
              rule_tac x = "take (unat fs) (m_StreamBuffer factory')" in exI) simp
        moreover have "ev = ev0 @ ?rest" using ev cb f' by simp
        ultimately have "\<exists>ev0 rest. ev = ev0 @ rest \<and> (\<forall>e \<in> set ev0. is_load_event e) \<and>
            (rest = [] \<and> result \<noteq> RELOAD_RESULT_OK \<or>
             (\<exists>rd resource_type content.
                out_descriptor = Some rd \<and>
                resource_type_at factory (m_ResourceType rd) = Some resource_type \<and>
                rest = CallRecreate (m_RecreateFunction resource_type) (m_Context resource_type)
                         content rd name #
                       (if result = RELOAD_RESULT_OK
                        then (case m_ResourceReloadedCallbacks factory of
                                None \<Rightarrow> [] | Some pairs \<Rightarrow> notify_reloaded pairs rd name)
                        else [])))"
          using evs by (intro exI [of _ ev0] exI [of _ ?rest]) blast
        with Some od f' fr show ?thesis by simp
      qed
    qed
  qed
qed

text \<open>
  C9. Whatever \<open>ReloadResource\<close> returns (\<open>RELOAD_RESULT_OK\<close>, \<open>NOT_FOUND\<close>,
  \<open>NOT_SUPPORTED\<close>, \<open>LOAD_ERROR\<close>, or the image of a failed recreate), the three tables
  \<open>m_Resources\<close>, \<open>m_ResourceToHash\<close> and \<open>m_ResourceHashToFilename\<close> are what they were
  before the call: nothing is inserted, nothing erased, no descriptor changed. The
  descriptor handed back is the one interned under the name's hash (none when there is
  none); no create and no destroy function is called; and a recreate function is called
  only on that interned descriptor, with the name the caller passed.
\<close>

theorem ReloadResource_frame:
  assumes "ReloadResource w factory name = Inr (result, out_descriptor, factory', ev)"
  shows "m_Resources factory' = m_Resources factory
       \<and> m_ResourceToHash factory' = m_ResourceToHash factory
       \<and> m_ResourceHashToFilename factory' = m_ResourceHashToFilename factory
       \<and> out_descriptor =
           m_Resources factory (dmHashBuffer64 w (GetCanonicalPath (m_UriParts_Path factory) name))
       \<and> (\<forall>e \<in> set ev. \<not> is_CallCreate e \<and> \<not> is_CallDestroy e)
       \<and> (\<forall>fn context content rd n. CallRecreate fn context content rd n \<in> set ev \<longrightarrow>
             out_descriptor = Some rd \<and> n = name)"
proof -
  from ReloadResource_cases [OF assms] obtain ev0 rest where
    od: "out_descriptor =
           m_Resources factory (dmHashBuffer64 w (GetCanonicalPath (m_UriParts_Path factory) name))"
    and fr: "load_frame factory factory'"
    and ev: "ev = ev0 @ rest" and ev0: "\<forall>e \<in> set ev0. is_load_event e"
    and rest: "rest = [] \<and> result \<noteq> RELOAD_RESULT_OK \<or>
             (\<exists>rd resource_type content.
                out_descriptor = Some rd \<and>
                resource_type_at factory (m_ResourceType rd) = Some resource_type \<and>
                rest = CallRecreate (m_RecreateFunction resource_type) (m_Context resource_type)
                         content rd name #
                       (if result = RELOAD_RESULT_OK
                        then (case m_ResourceReloadedCallbacks factory of
                                None \<Rightarrow> [] | Some pairs \<Rightarrow> notify_reloaded pairs rd name)
                        else []))"
    by blast
  have k0: "\<not> is_CallCreate e \<and> \<not> is_CallDestroy e \<and>
      (\<forall>fn context content rd n. e \<noteq> CallRecreate fn context content rd n)"
    if "e \<in> set ev0" for e
    using that ev0 load_event_kinds [of e] load_event_not_create [of e] by blast
  have k1: "\<not> is_CallCreate e \<and> \<not> is_CallDestroy e \<and>
      (\<forall>fn context content rd n. e = CallRecreate fn context content rd n \<longrightarrow>
          out_descriptor = Some rd \<and> n = name)"
    if "e \<in> set rest" for e
  proof -
    from that have "rest \<noteq> []" by auto
    with rest obtain rd and rt :: SResourceType and content where od': "out_descriptor = Some rd"
      and r: "rest = CallRecreate (m_RecreateFunction rt) (m_Context rt) content rd name #
                (if result = RELOAD_RESULT_OK
                 then (case m_ResourceReloadedCallbacks factory of
                         None \<Rightarrow> [] | Some pairs \<Rightarrow> notify_reloaded pairs rd name)
                 else [])"
      by blast
    let ?tail = "if result = RELOAD_RESULT_OK
                 then (case m_ResourceReloadedCallbacks factory of
                         None \<Rightarrow> [] | Some pairs \<Rightarrow> notify_reloaded pairs rd name)
                 else []"
    from that r have "e = CallRecreate (m_RecreateFunction rt) (m_Context rt) content rd name \<or>
        e \<in> set ?tail"
      by (metis set_ConsD)
    then show ?thesis
    proof
      assume "e = CallRecreate (m_RecreateFunction rt) (m_Context rt) content rd name"
      with od' show ?thesis by simp
    next
      assume "e \<in> set ?tail"
      then have "is_CallReloaded e"
        by (cases "result = RELOAD_RESULT_OK"; cases "m_ResourceReloadedCallbacks factory")
          (simp_all add: notify_reloaded_events)
      then show ?thesis by (cases e) simp_all
    qed
  qed
  have a: "\<forall>e \<in> set ev. \<not> is_CallCreate e \<and> \<not> is_CallDestroy e"
    unfolding ev using k0 k1 by (metis Un_iff set_append)
  have b: "\<forall>fn context content rd n. CallRecreate fn context content rd n \<in> set ev \<longrightarrow>
             out_descriptor = Some rd \<and> n = name"
    unfolding ev using k0 k1 by (metis Un_iff set_append)
  from fr have "m_Resources factory' = m_Resources factory"
    "m_ResourceToHash factory' = m_ResourceToHash factory"
    "m_ResourceHashToFilename factory' = m_ResourceHashToFilename factory"
    by (simp_all add: load_frame_def)
  with od a b show ?thesis by (intro conjI)
qed

theorem ReloadResource_frame_witness:
  "ReloadResource example_world2 example_loaded ''a.txt'' =
     Inr (RELOAD_RESULT_OK, Some example_descriptor,
          example_loaded\<lparr>m_StreamBuffer := ''world'' @ [CHR 0x00, CHR 0x00, CHR 0x00, CHR 0x00]\<rparr>,
          [FileOpen ''/tmp/data/a.txt'',
           CallRecreate 3 7 ''world'' example_descriptor ''a.txt''])
   \<and> m_Resources (example_loaded
         \<lparr>m_StreamBuffer := ''world'' @ [CHR 0x00, CHR 0x00, CHR 0x00, CHR 0x00]\<rparr>) =
       m_Resources example_loaded
   \<and> m_ResourceToHash (example_loaded
         \<lparr>m_StreamBuffer := ''world'' @ [CHR 0x00, CHR 0x00, CHR 0x00, CHR 0x00]\<rparr>) =
       m_ResourceToHash example_loaded
   \<and> m_ResourceHashToFilename (example_loaded
         \<lparr>m_StreamBuffer := ''world'' @ [CHR 0x00, CHR 0x00, CHR 0x00, CHR 0x00]\<rparr>) =
       m_ResourceHashToFilename example_loaded
   \<and> Some example_descriptor =
       m_Resources example_loaded
         (dmHashBuffer64 example_world2
           (GetCanonicalPath (m_UriParts_Path example_loaded) ''a.txt''))"
  using ReloadResource_frame [OF example_reload] example_reload by (intro conjI) blast+

text \<open>
  C6. When the name is interned and the type of its descriptor has no recreate function,
  \<open>ReloadResource\<close> returns \<open>RELOAD_RESULT_NOT_SUPPORTED\<close>, leaves the factory (the stream
  buffer included) as it was and does nothing outside it: no transport is asked for the
  content and no reload callback is called.
\<close>

theorem ReloadResource_not_supported:
  assumes "m_Resources factory
             (dmHashBuffer64 w (GetCanonicalPath (m_UriParts_Path factory) name)) = Some rd"
    and "resource_type_at factory (m_ResourceType rd) = Some resource_type"
    and "m_RecreateFunction resource_type = 0"
  shows "ReloadResource w factory name = Inr (RELOAD_RESULT_NOT_SUPPORTED, Some rd, factory, [])"
  using assms by (simp add: ReloadResource_def Let_def)

theorem ReloadResource_not_supported_witness:
  "m_Resources example_loaded_no_recreate
     (dmHashBuffer64 example_world2
        (GetCanonicalPath (m_UriParts_Path example_loaded_no_recreate) ''a.txt'')) =
     Some example_descriptor
   \<and> resource_type_at example_loaded_no_recreate (m_ResourceType example_descriptor) =
       Some (example_txt_type\<lparr>m_RecreateFunction := 0\<rparr>)
   \<and> m_RecreateFunction (example_txt_type\<lparr>m_RecreateFunction := 0\<rparr>) = 0
   \<and> ReloadResource example_world2 example_loaded_no_recreate ''a.txt'' =
       Inr (RELOAD_RESULT_NOT_SUPPORTED, Some example_descriptor, example_loaded_no_recreate, [])"
proof -
  have a: "m_Resources example_loaded_no_recreate
     (dmHashBuffer64 example_world2
        (GetCanonicalPath (m_UriParts_Path example_loaded_no_recreate) ''a.txt'')) =
     Some example_descriptor"
    by (simp add: example_no_recreate_sels example_canonical example_world2_def example_world_sels)
  have b: "resource_type_at example_loaded_no_recreate (m_ResourceType example_descriptor) =
       Some (example_txt_type\<lparr>m_RecreateFunction := 0\<rparr>)"
    by (simp add: resource_type_at_def example_no_recreate_sels example_descriptor_sels)
  have c: "m_RecreateFunction (example_txt_type\<lparr>m_RecreateFunction := 0\<rparr>) = 0" by simp
  from ReloadResource_not_supported [OF a b c] a b c show ?thesis by (intro conjI)
qed

text \<open>
  C10. When the name is not interned, its extension has a registered type, the load
  succeeds and the create function returns anything but \<open>CREATE_RESULT_OK\<close>, \<open>Get\<close>
  returns \<open>FACTORY_RESULT_UNKNOWN\<close> whichever the create result was (and logs a warning).
  \<open>ReloadResource\<close>, when the recreate function of an interned resource returns anything
  but \<open>CREATE_RESULT_OK\<close>, returns the result's own image under its \<open>switch\<close>: out of
  memory, format error, constant error and unknown are kept apart. The two halves are
  independent of each other: each has its own world, factory and name.
\<close>

theorem Get_collapses_create_errors:
  "(m_Resources factory
      (dmHashBuffer64 w (GetCanonicalPath (m_UriParts_Path factory) name)) = None \<and>
    strrchr name (CHR ''.'') = Some dot \<and>
    FindResourceType factory (tl dot) = Some i \<and>
    LoadResource w factory (GetCanonicalPath (m_UriParts_Path factory) name) name =
      Inr (FACTORY_RESULT_OK, file_size, factory', ev) \<and>
    create_cb w (m_CreateFunction (m_ResourceTypes factory' ! i))
      (m_Context (m_ResourceTypes factory' ! i)) (m_StreamBuffer factory') file_size name =
      (create_error, resource) \<and>
    create_error \<noteq> CREATE_RESULT_OK
    \<longrightarrow>
    Get w factory name =
      Inr (FACTORY_RESULT_UNKNOWN, 0, factory',
           ev @ [CallCreate (m_CreateFunction (m_ResourceTypes factory' ! i))
                   (m_Context (m_ResourceTypes factory' ! i))
                   (take (unat file_size) (m_StreamBuffer factory')) name,
                 Log LOG_SEVERITY_WARNING ''Unable to create resource: %s'']))
 \<and> (m_Resources factory2
      (dmHashBuffer64 w2 (GetCanonicalPath (m_UriParts_Path factory2) name2)) = Some rd \<and>
    resource_type_at factory2 (m_ResourceType rd) = Some resource_type \<and>
    m_RecreateFunction resource_type \<noteq> 0 \<and>
    LoadResource w2 factory2 (GetCanonicalPath (m_UriParts_Path factory2) name2) name2 =
      Inr (FACTORY_RESULT_OK, file_size2, factory2', ev2) \<and>
    recreate_cb w2 (m_RecreateFunction resource_type) (m_Context resource_type)
      (m_StreamBuffer factory2') file_size2 rd name2 = create_result \<and>
    create_result \<noteq> CREATE_RESULT_OK
    \<longrightarrow>
    ReloadResource w2 factory2 name2 =
      Inr (ReloadResource_switch create_result, Some rd, factory2',
           ev2 @ [CallRecreate (m_RecreateFunction resource_type) (m_Context resource_type)
                    (take (unat file_size2) (m_StreamBuffer factory2')) rd name2]))
 \<and> ReloadResource_switch CREATE_RESULT_OUT_OF_MEMORY = RELOAD_RESULT_OUT_OF_MEMORY
 \<and> ReloadResource_switch CREATE_RESULT_FORMAT_ERROR = RELOAD_RESULT_FORMAT_ERROR
 \<and> ReloadResource_switch CREATE_RESULT_CONSTANT_ERROR = RELOAD_RESULT_CONSTANT_ERROR
 \<and> ReloadResource_switch CREATE_RESULT_UNKNOWN = RELOAD_RESULT_UNKNOWN"
proof -
  have g: "Get w factory name =
      Inr (FACTORY_RESULT_UNKNOWN, 0, factory',
           ev @ [CallCreate (m_CreateFunction (m_ResourceTypes factory' ! i))
                   (m_Context (m_ResourceTypes factory' ! i))
                   (take (unat file_size) (m_StreamBuffer factory')) name,
                 Log LOG_SEVERITY_WARNING ''Unable to create resource: %s''])"
    if "m_Resources factory
          (dmHashBuffer64 w (GetCanonicalPath (m_UriParts_Path factory) name)) = None"
      and "strrchr name (CHR ''.'') = Some dot"
      and "FindResourceType factory (tl dot) = Some i"
      and "LoadResource w factory (GetCanonicalPath (m_UriParts_Path factory) name) name =
             Inr (FACTORY_RESULT_OK, file_size, factory', ev)"
      and "create_cb w (m_CreateFunction (m_ResourceTypes factory' ! i))
             (m_Context (m_ResourceTypes factory' ! i)) (m_StreamBuffer factory') file_size name =
             (create_error, resource)"
      and "create_error \<noteq> CREATE_RESULT_OK"
    using that by (simp add: Get_def Get_create_def Let_def)
  have r: "ReloadResource w2 factory2 name2 =
      Inr (ReloadResource_switch create_result, Some rd, factory2',
           ev2 @ [CallRecreate (m_RecreateFunction resource_type) (m_Context resource_type)
                    (take (unat file_size2) (m_StreamBuffer factory2')) rd name2])"
    if "m_Resources factory2
          (dmHashBuffer64 w2 (GetCanonicalPath (m_UriParts_Path factory2) name2)) = Some rd"
      and "resource_type_at factory2 (m_ResourceType rd) = Some resource_type"
      and "m_RecreateFunction resource_type \<noteq> 0"
      and "LoadResource w2 factory2 (GetCanonicalPath (m_UriParts_Path factory2) name2) name2 =
             Inr (FACTORY_RESULT_OK, file_size2, factory2', ev2)"
      and "recreate_cb w2 (m_RecreateFunction resource_type) (m_Context resource_type)
             (m_StreamBuffer factory2') file_size2 rd name2 = create_result"
      and "create_result \<noteq> CREATE_RESULT_OK"
    using that by (simp add: ReloadResource_def Let_def)
  from g r show ?thesis by simp
qed

theorem Get_collapses_create_errors_witness:
  "Get example_failing_world example_factory ''a.txt'' =
      Inr (FACTORY_RESULT_UNKNOWN, 0,
           example_factory\<lparr>m_StreamBuffer := ''hello'' @ [CHR 0x00, CHR 0x00, CHR 0x00, CHR 0x00]\<rparr>,
           [FileOpen ''/tmp/data/a.txt'', CallCreate 1 7 ''hello'' ''a.txt'',
            Log LOG_SEVERITY_WARNING ''Unable to create resource: %s''])
   \<and> ReloadResource example_failing_world example_loaded ''a.txt'' =
      Inr (RELOAD_RESULT_FORMAT_ERROR, Some example_descriptor, example_loaded,
           [FileOpen ''/tmp/data/a.txt'',
            CallRecreate 3 7 ''hello'' example_descriptor ''a.txt''])"
proof -
  let ?w = example_failing_world
  let ?f1 = "example_factory\<lparr>m_StreamBuffer := ''hello'' @ [CHR 0x00, CHR 0x00, CHR 0x00, CHR 0x00]\<rparr>"
  have h: "dmHashBuffer64 ?w = example_hash"
    by (simp add: example_failing_world_def example_world_sels)
  have a1: "m_Resources example_factory
      (dmHashBuffer64 ?w (GetCanonicalPath (m_UriParts_Path example_factory) ''a.txt'')) = None"
    by (simp add: example_factory_sels)
  have a2: "strrchr ''a.txt'' (CHR ''.'') = Some ''.txt''" by simp
  have a3: "FindResourceType example_factory (tl ''.txt'') = Some 0"
    by (simp add: FindResourceType_def example_factory_sels example_txt_type_def)
  have a4: "LoadResource ?w example_factory
      (GetCanonicalPath (m_UriParts_Path example_factory) ''a.txt'') ''a.txt'' =
      Inr (FACTORY_RESULT_OK, 5, ?f1, [FileOpen ''/tmp/data/a.txt''])"
    by (simp add: example_factory_sels example_canonical example_load_failing)
  have a5: "create_cb ?w (m_CreateFunction (m_ResourceTypes ?f1 ! 0))
      (m_Context (m_ResourceTypes ?f1 ! 0)) (m_StreamBuffer ?f1) 5 ''a.txt'' =
      (CREATE_RESULT_FORMAT_ERROR, 0)"
    by (simp add: example_failing_world_def)
  have a6: "CREATE_RESULT_FORMAT_ERROR \<noteq> CREATE_RESULT_OK" by simp
  have b1: "m_Resources example_loaded
      (dmHashBuffer64 ?w (GetCanonicalPath (m_UriParts_Path example_loaded) ''a.txt'')) =
      Some example_descriptor"
    by (simp add: h example_loaded_sels example_canonical)
  have b2: "resource_type_at example_loaded (m_ResourceType example_descriptor) =
      Some example_txt_type"
    by (simp add: resource_type_at_def example_loaded_sels example_descriptor_sels)
  have b3: "m_RecreateFunction example_txt_type \<noteq> 0" by (simp add: example_txt_type_def)
  have b4: "LoadResource ?w example_loaded
      (GetCanonicalPath (m_UriParts_Path example_loaded) ''a.txt'') ''a.txt'' =
      Inr (FACTORY_RESULT_OK, 5, example_loaded, [FileOpen ''/tmp/data/a.txt''])"
    by (simp add: example_loaded_sels example_canonical example_load_loaded)
  have b5: "recreate_cb ?w (m_RecreateFunction example_txt_type) (m_Context example_txt_type)
      (m_StreamBuffer example_loaded) 5 example_descriptor ''a.txt'' = CREATE_RESULT_FORMAT_ERROR"
    by (simp add: example_failing_world_def)
  have b6: "CREATE_RESULT_FORMAT_ERROR \<noteq> CREATE_RESULT_OK" by simp
  note t = Get_collapses_create_errors
    [where w = ?w and factory = example_factory and name = "''a.txt''" and dot = "''.txt''"
       and i = 0 and file_size = 5 and factory' = ?f1 and ev = "[FileOpen ''/tmp/data/a.txt'']"
       and create_error = CREATE_RESULT_FORMAT_ERROR and resource = 0
       and ?w2.0 = ?w and ?factory2.0 = example_loaded and ?name2.0 = "''a.txt''"
       and rd = example_descriptor and resource_type = example_txt_type
       and ?file_size2.0 = 5 and factory2' = example_loaded
       and ?ev2.0 = "[FileOpen ''/tmp/data/a.txt'']"
       and create_result = CREATE_RESULT_FORMAT_ERROR]
  from t a1 a2 a3 a4 a5 a6
  have g: "Get ?w example_factory ''a.txt'' =
      Inr (FACTORY_RESULT_UNKNOWN, 0, ?f1,
           [FileOpen ''/tmp/data/a.txt''] @
           [CallCreate (m_CreateFunction (m_ResourceTypes ?f1 ! 0))
              (m_Context (m_ResourceTypes ?f1 ! 0)) (take (unat (5 :: uint32_t)) (m_StreamBuffer ?f1))
              ''a.txt'',
            Log LOG_SEVERITY_WARNING ''Unable to create resource: %s''])"
    by blast
  from t b1 b2 b3 b4 b5 b6
  have r: "ReloadResource ?w example_loaded ''a.txt'' =
      Inr (ReloadResource_switch CREATE_RESULT_FORMAT_ERROR, Some example_descriptor,
           example_loaded,
           [FileOpen ''/tmp/data/a.txt''] @
           [CallRecreate (m_RecreateFunction example_txt_type) (m_Context example_txt_type)
              (take (unat (5 :: uint32_t)) (m_StreamBuffer example_loaded)) example_descriptor
              ''a.txt''])"
    by blast
  from g r show ?thesis
    by (simp add: example_factory_sels example_loaded_sels example_txt_type_def)
qed

subsection \<open>LoadResource: the order of the transports\<close>

lemma HttpContent_total:
  assumes "m_HttpTotalBytesStreamed f \<le> m_StreamBufferSize f"
  shows "\<exists>f'. HttpContent f s d = Inr f' \<and>
           m_HttpTotalBytesStreamed f' \<le> m_StreamBufferSize f'"
proof -
  have "t + c \<le> b" if "t \<le> b" "\<not> b - t < c" for t c b :: uint32_t
    using that by unat_arith
  with assms show ?thesis by (auto simp: HttpContent_def Let_def)
qed


text \<open>The HTTP block writes inside the buffer: what it has streamed never exceeds
  \<open>m_StreamBufferSize\<close>, so that the chunks and the terminating NUL lie within the
  \<open>m_StreamBufferSize + 1\<close> bytes of the buffer.\<close>

lemma http_callbacks_bound:
  "m_HttpTotalBytesStreamed f \<le> m_StreamBufferSize f \<Longrightarrow> http_callbacks w f cs = Inr f' \<Longrightarrow>
     m_HttpTotalBytesStreamed f' \<le> m_StreamBufferSize f'"
proof (induction w f cs rule: http_callbacks.induct)
  case (1 w factory)
  then show ?case by simp
next
  case (2 w factory status_code key val cs)
  then show ?case by (simp add: HttpHeader_def Let_def split: if_splits)
next
  case (3 w factory status_code content_data cs)
  from HttpContent_total [OF "3.prems"(1)] obtain f1 where
    "HttpContent factory status_code content_data = Inr f1"
    "m_HttpTotalBytesStreamed f1 \<le> m_StreamBufferSize f1" by blast
  with "3.IH" "3.prems"(2) show ?case by simp
qed

lemma LoadResource_http_bound:
  assumes "LoadResource_http w factory path = Inr (result, resource_size, factory', ev)"
  shows "m_HttpTotalBytesStreamed factory' \<le> m_StreamBufferSize factory'"
proof -
  let ?f0 = "factory\<lparr>m_HttpContentLength := 0, m_HttpTotalBytesStreamed := 0,
                 m_HttpFactoryResult := FACTORY_RESULT_OK, m_HttpStatus := - 1\<rparr>"
  obtain calls hr where g: "dmHttpClient_Get w path = (calls, hr)"
    by (cases "dmHttpClient_Get w path")
  from assms g obtain f1 where f1: "http_callbacks w ?f0 calls = Inr f1"
    by (auto simp: LoadResource_http_def Let_def split: sum.splits)
  have "m_HttpTotalBytesStreamed ?f0 \<le> m_StreamBufferSize ?f0" by simp
  from http_callbacks_bound [OF this f1]
  have "m_HttpTotalBytesStreamed f1 \<le> m_StreamBufferSize f1" .
  with assms g f1 show ?thesis
    by (auto simp: LoadResource_http_def Let_def split: if_splits)
qed


lemma sint_long_succ:
  "sint (x + 1 :: long) = (if sint x = 2 ^ 63 - 1 then - (2 ^ 63) else sint x + 1)"
proof -
  have r: "- (2 ^ 63) \<le> sint x" "sint x < 2 ^ 63"
    using sint_ge [of x] sint_lt [of x] by simp_all
  have e: "sint (x + 1) = signed_take_bit 63 (sint x + 1)"
    by (simp add: sint_word_ariths)
  show ?thesis
  proof (cases "sint x = 2 ^ 63 - 1")
    case True
    then show ?thesis unfolding e by (simp add: signed_take_bit_eq_take_bit_shift)
  next
    case False
    with r have "- (2 ^ 63) \<le> sint x + 1 \<and> sint x + 1 < 2 ^ 63" by simp
    then have "signed_take_bit 63 (sint x + 1) = sint x + 1"
      by (simp add: signed_take_bit_int_eq_self)
    with False e show ?thesis by simp
  qed
qed




text \<open>When the file block writes outside the buffer: \<open>ftell\<close> reported \<open>LONG_MAX\<close>, so that
  \<open>file_size + 1\<close> wraps and passes the guard, or a size that passes the guard and is
  negative or not an index of the buffer.\<close>

lemma LoadResource_file_overrun:
  assumes "fopen w path = Some file"
  shows "LoadResource_file w factory path = Inl OutOfBounds \<longleftrightarrow>
     sint (ftell_end file) = 2 ^ 63 - 1 \<and> length (m_StreamBuffer factory) \<le> 2 ^ 63 - 1 \<or>
     sint (ftell_end file) + 1 < uint (m_StreamBufferSize factory) \<and>
       (sint (ftell_end file) < 0 \<or>
        length (m_StreamBuffer factory) \<le> nat (sint (ftell_end file)))"
proof (cases "sint (ftell_end file) = 2 ^ 63 - 1")
  case True
  have u: "0 \<le> uint (m_StreamBufferSize factory)" by simp
  have n: "nat (2 ^ 63 - 1 :: int) = 2 ^ 63 - 1" by simp
  have g: "\<not> uint (m_StreamBufferSize factory) \<le> sint (ftell_end file + 1)"
  proof -
    from True have "sint (ftell_end file + 1) = - 9223372036854775808"
      by (simp add: sint_long_succ)
    with u show ?thesis by linarith
  qed
  from True have big: "\<not> sint (ftell_end file) + 1 < uint (m_StreamBufferSize factory)"
    using uint_lt2p [of "m_StreamBufferSize factory"] by simp
  from assms g True n big show ?thesis
    by (simp add: LoadResource_file_def Let_def)
next
  case False
  then have s: "sint (ftell_end file + 1) = sint (ftell_end file) + 1"
    by (simp add: sint_long_succ)
  from assms False show ?thesis
    by (auto simp: LoadResource_file_def Let_def s)
qed

text \<open>The two sizes that are no size of a file: \<open>LONG_MAX\<close>, which \<open>ftell\<close> reports for a
  directory on Linux, and the \<open>-1\<close> of a failing \<open>ftell\<close>.\<close>

lemma LoadResource_file_LONG_MAX:
  assumes "fopen w path = Some file" and "ftell_end file = 0x7FFFFFFFFFFFFFFF"
    and "length (m_StreamBuffer factory) < 2 ^ 63"
  shows "LoadResource_file w factory path = Inl OutOfBounds"
proof -
  from assms(2) have "sint (ftell_end file) = 2 ^ 63 - 1" by simp
  moreover from assms(3) have "length (m_StreamBuffer factory) \<le> 2 ^ 63 - 1" by simp
  ultimately show ?thesis using LoadResource_file_overrun [OF assms(1), of factory] by blast
qed

lemma LoadResource_file_ftell_fails:
  assumes "fopen w path = Some file" and "ftell_end file = - 1"
  shows "LoadResource_file w factory path =
     (if m_StreamBufferSize factory = 0
      then Inr (FACTORY_RESULT_STREAMBUFFER_TOO_SMALL, ucast (ftell_end file), factory,
             [FileOpen path,
              Log LOG_SEVERITY_ERROR ''Resource too large for streambuffer: %s''])
      else Inl OutOfBounds)"
proof -
  have "uint (m_StreamBufferSize factory) \<le> 0 \<longleftrightarrow> m_StreamBufferSize factory = 0"
    by (simp add: uint_0_iff)
  with assms show ?thesis
    by (simp add: LoadResource_file_def Let_def)
qed






















subsection \<open>The reload callbacks\<close>

lemma EraseSwap_length: "i < length xs \<Longrightarrow> length (EraseSwap xs i) = length xs - 1"
  by (simp add: EraseSwap_def)

lemma EraseSwap_nth: "j < i \<Longrightarrow> i < length xs \<Longrightarrow> EraseSwap xs i ! j = xs ! j"
  by (simp add: EraseSwap_def nth_butlast)

lemma EraseSwap_mset:
  assumes "i < length xs"
  shows "mset (EraseSwap xs i) = mset xs - {#xs ! i#}"
proof -
  from assms have ne: "xs \<noteq> []" by auto
  then have xs: "xs = butlast xs @ [last xs]" by simp
  show ?thesis
  proof (cases "i = length xs - 1")
    case True
    then have "xs ! i = last xs" using ne by (simp add: last_conv_nth)
    moreover from this True assms have "xs[i := last xs] = xs" by (metis list_update_id)
    moreover have "mset xs = add_mset (last xs) (mset (butlast xs))"
      by (subst xs) simp
    ultimately show ?thesis by (simp add: EraseSwap_def)
  next
    case False
    with assms have i: "i < length (butlast xs)" by simp
    have "(butlast xs @ [last xs])[i := last xs] = (butlast xs)[i := last xs] @ [last xs]"
      using i by (simp add: list_update_append)
    with ne have "xs[i := last xs] = (butlast xs)[i := last xs] @ [last xs]" by simp
    then have "EraseSwap xs i = (butlast xs)[i := last xs]" by (simp add: EraseSwap_def)
    moreover have "butlast xs ! i = xs ! i" using i by (simp add: nth_butlast)
    moreover have "mset xs = add_mset (last xs) (mset (butlast xs))"
      by (subst xs) simp
    moreover have "xs ! i \<in># mset (butlast xs)"
      using i \<open>butlast xs ! i = xs ! i\<close> by (metis nth_mem set_mset_mset)
    ultimately show ?thesis using i by (simp add: mset_update)
  qed
qed

lemma unregister_loop_kept:
  "sz = length pairs \<Longrightarrow>
     filter_mset (\<lambda>p. \<not> matches cb ud p)
       (mset (UnregisterResourceReloadedCallback_loop pairs i sz cb ud)) =
     filter_mset (\<lambda>p. \<not> matches cb ud p) (mset pairs)"
proof (induction pairs i sz cb ud rule: UnregisterResourceReloadedCallback_loop.induct)
  case (1 pairs i sz callback user_data)
  show ?case
  proof (cases "i < sz")
    case False
    then show ?thesis by (subst UnregisterResourceReloadedCallback_loop.simps)
          (simp del: UnregisterResourceReloadedCallback_loop.simps)
  next
    case True
    show ?thesis
    proof (cases "m_Callback (pairs ! i) = callback \<and> m_UserData (pairs ! i) = user_data")
      case m: True
      from True "1.prems" have len: "sz - 1 = length (EraseSwap pairs i)"
        by (simp add: EraseSwap_length)
      from True "1.prems" have "pairs ! i \<in># mset pairs" by simp
      with m have "filter_mset (\<lambda>p. \<not> matches callback user_data p) (mset (EraseSwap pairs i)) =
          filter_mset (\<lambda>p. \<not> matches callback user_data p) (mset pairs)"
        using True "1.prems" by (simp add: EraseSwap_mset matches_def filter_diff_mset)
      with "1.IH"(1) [OF True m len] True m show ?thesis
        by (subst UnregisterResourceReloadedCallback_loop.simps)
          (simp del: UnregisterResourceReloadedCallback_loop.simps)
    next
      case m: False
      with "1.IH"(2) [OF True m "1.prems"] True show ?thesis
        by (subst UnregisterResourceReloadedCallback_loop.simps)
          (auto simp del: UnregisterResourceReloadedCallback_loop.simps)
    qed
  qed
qed

lemma unregister_loop_clean:
  "sz = length pairs \<Longrightarrow> \<forall>j < i. \<not> matches cb ud (pairs ! j) \<Longrightarrow>
     \<forall>p \<in> set (UnregisterResourceReloadedCallback_loop pairs i sz cb ud). \<not> matches cb ud p"
proof (induction pairs i sz cb ud rule: UnregisterResourceReloadedCallback_loop.induct)
  case (1 pairs i sz callback user_data)
  show ?case
  proof (cases "i < sz")
    case False
    with "1.prems" have "\<forall>p \<in> set pairs. \<not> matches callback user_data p"
      by (auto simp: in_set_conv_nth)
    with False show ?thesis
      by (subst UnregisterResourceReloadedCallback_loop.simps)
        (simp del: UnregisterResourceReloadedCallback_loop.simps)
  next
    case True
    show ?thesis
    proof (cases "m_Callback (pairs ! i) = callback \<and> m_UserData (pairs ! i) = user_data")
      case m: True
      from True "1.prems" have len: "sz - 1 = length (EraseSwap pairs i)"
        by (simp add: EraseSwap_length)
      have "\<forall>j < i. \<not> matches callback user_data (EraseSwap pairs i ! j)"
        using "1.prems" True by (simp add: EraseSwap_nth)
      with "1.IH"(1) [OF True m len] True m show ?thesis
        by (subst UnregisterResourceReloadedCallback_loop.simps)
          (simp del: UnregisterResourceReloadedCallback_loop.simps)
    next
      case m: False
      then have "\<not> matches callback user_data (pairs ! i)" by (simp add: matches_def)
      with "1.prems" have "\<forall>j < i + 1. \<not> matches callback user_data (pairs ! j)"
        by (auto simp: less_Suc_eq)
      with "1.IH"(2) [OF True m "1.prems"(1)] True m show ?thesis
        by (subst UnregisterResourceReloadedCallback_loop.simps)
          (auto simp del: UnregisterResourceReloadedCallback_loop.simps)
    qed
  qed
qed

lemma unregister_loop_mset:
  "mset (UnregisterResourceReloadedCallback_loop pairs 0 (length pairs) cb ud) =
     mset (filter (\<lambda>p. \<not> (m_Callback p = cb \<and> m_UserData p = ud)) pairs)"
proof -
  let ?r = "UnregisterResourceReloadedCallback_loop pairs 0 (length pairs) cb ud"
  have "\<forall>p \<in> set ?r. \<not> matches cb ud p"
    by (rule unregister_loop_clean) simp_all
  then have "filter (\<lambda>p. \<not> matches cb ud p) ?r = ?r"
    by (simp only: filter_id_conv)
  then have "filter_mset (\<lambda>p. \<not> matches cb ud p) (mset ?r) = mset ?r"
    by (metis mset_filter)
  with unregister_loop_kept [of "length pairs" pairs cb ud 0] show ?thesis
    by (simp add: matches_def)
qed

lemma Register_callbacks:
  "m_ResourceReloadedCallbacks f = Some acc \<Longrightarrow>
     m_ResourceReloadedCallbacks (fst (RegisterResourceReloadedCallback f cb ud)) =
       Some (if length acc \<noteq> MAX_CALLBACKS
             then acc @ [\<lparr>m_Callback = cb, m_UserData = ud\<rparr>] else acc)"
  by (simp add: RegisterResourceReloadedCallback_def)

lemma Unregister_callbacks:
  "m_ResourceReloadedCallbacks f = Some acc \<Longrightarrow>
     m_ResourceReloadedCallbacks (UnregisterResourceReloadedCallback f cb ud) =
       Some (UnregisterResourceReloadedCallback_loop acc 0 (length acc) cb ud)"
  by (simp add: UnregisterResourceReloadedCallback_def)

lemma apply_observer_ops_mset:
  "m_ResourceReloadedCallbacks f = Some acc \<Longrightarrow> mset acc = mset acc' \<Longrightarrow>
   length acc \<le> MAX_CALLBACKS \<Longrightarrow>
     \<exists>pairs. m_ResourceReloadedCallbacks (apply_observer_ops f ops) = Some pairs \<and>
       mset pairs = mset (registered_in_order ops acc')"
proof (induction ops arbitrary: f acc acc')
  case Nil
  then show ?case by simp
next
  case (Cons op ops)
  from Cons.prems(2) have len: "length acc = length acc'" by (rule mset_eq_length)
  show ?case
  proof (cases op)
    case (Register cb ud)
    let ?p = "\<lparr>m_Callback = cb, m_UserData = ud\<rparr>"
    let ?a = "if length acc \<noteq> MAX_CALLBACKS then acc @ [?p] else acc"
    let ?a' = "if length acc' < 16 then acc' @ [?p] else acc'"
    have 1: "m_ResourceReloadedCallbacks (fst (RegisterResourceReloadedCallback f cb ud)) = Some ?a"
      using Cons.prems(1) by (rule Register_callbacks)
    have 2: "mset ?a = mset ?a'"
      using Cons.prems(2,3) len by (auto simp: MAX_CALLBACKS_def)
    have 3: "length ?a \<le> MAX_CALLBACKS"
      using Cons.prems(3) by (auto simp: MAX_CALLBACKS_def)
    from Cons.IH [OF 1 2 3] Register show ?thesis by simp
  next
    case (Unregister cb ud)
    let ?a = "UnregisterResourceReloadedCallback_loop acc 0 (length acc) cb ud"
    let ?a' = "filter (\<lambda>pair. \<not> (m_Callback pair = cb \<and> m_UserData pair = ud)) acc'"
    have 1: "m_ResourceReloadedCallbacks (UnregisterResourceReloadedCallback f cb ud) = Some ?a"
      using Cons.prems(1) by (rule Unregister_callbacks)
    have 2: "mset ?a = mset ?a'"
      using Cons.prems(2) by (simp add: unregister_loop_mset)
    have "length ?a = length ?a'" using 2 by (rule mset_eq_length)
    also have "\<dots> \<le> length acc'" by simp
    finally have 3: "length ?a \<le> MAX_CALLBACKS" using Cons.prems(3) len by simp
    from Cons.IH [OF 1 2 3] Unregister show ?thesis by simp
  qed
qed

lemma apply_observer_ops_order:
  "m_ResourceReloadedCallbacks f = Some acc \<Longrightarrow> length acc \<le> MAX_CALLBACKS \<Longrightarrow>
   \<not> list_ex is_Unregister ops \<Longrightarrow>
     m_ResourceReloadedCallbacks (apply_observer_ops f ops) = Some (registered_in_order ops acc)"
proof (induction ops arbitrary: f acc)
  case Nil
  then show ?case by simp
next
  case (Cons op ops)
  from Cons.prems(3) obtain cb ud where op: "op = Register cb ud"
    by (cases op) auto
  let ?p = "\<lparr>m_Callback = cb, m_UserData = ud\<rparr>"
  let ?a = "if length acc \<noteq> MAX_CALLBACKS then acc @ [?p] else acc"
  have 1: "m_ResourceReloadedCallbacks (fst (RegisterResourceReloadedCallback f cb ud)) = Some ?a"
    using Cons.prems(1) by (rule Register_callbacks)
  have 2: "length ?a \<le> MAX_CALLBACKS"
    using Cons.prems(2) by (auto simp: MAX_CALLBACKS_def)
  have 3: "?a = (if length acc < 16 then acc @ [?p] else acc)"
    using Cons.prems(2) by (auto simp: MAX_CALLBACKS_def)
  from Cons.prems(3) have "\<not> list_ex is_Unregister ops" by simp
  from Cons.IH [OF 1 2 this] op 3 show ?case by simp
qed

lemma notify_reloaded_map:
  "notify_reloaded pairs rd name =
     map (\<lambda>pair. CallReloaded (m_Callback pair) (m_UserData pair) rd name) pairs"
  by (induction pairs) simp_all

lemma load_events_no_reloaded:
  "\<forall>e \<in> set ev. is_load_event e \<Longrightarrow> filter is_CallReloaded ev = []"
  by (induction ev) (auto dest: load_event_kinds)

lemma example_unregister_loop:
  "UnregisterResourceReloadedCallback_loop
     [\<lparr>m_Callback = 10, m_UserData = 0\<rparr>, \<lparr>m_Callback = 11, m_UserData = 0\<rparr>,
      \<lparr>m_Callback = 12, m_UserData = 0\<rparr>] 0 (Suc (Suc (Suc 0))) 10 0 =
   [\<lparr>m_Callback = 12, m_UserData = 0\<rparr>, \<lparr>m_Callback = 11, m_UserData = 0\<rparr>]"
  by (simp add: UnregisterResourceReloadedCallback_loop.simps EraseSwap_def)

lemma example_observed_ops:
  "apply_observer_ops example_loaded example_observer_ops = example_observed"
  by (simp add: example_observer_ops_def RegisterResourceReloadedCallback_def
      UnregisterResourceReloadedCallback_def example_loaded_sels MAX_CALLBACKS_def
      example_unregister_loop example_observed_def)

lemma example_registered_in_order:
  "registered_in_order example_observer_ops [] =
     [\<lparr>m_Callback = 11, m_UserData = 0\<rparr>, \<lparr>m_Callback = 12, m_UserData = 0\<rparr>]"
  by (simp add: example_observer_ops_def)

lemma example_observed_reload:
  "ReloadResource example_world2 example_observed ''a.txt'' =
     Inr (RELOAD_RESULT_OK, Some example_descriptor,
          example_observed\<lparr>m_StreamBuffer := ''world'' @ [CHR 0x00, CHR 0x00, CHR 0x00, CHR 0x00]\<rparr>,
          [FileOpen ''/tmp/data/a.txt'',
           CallRecreate 3 7 ''world'' example_descriptor ''a.txt'',
           CallReloaded 12 0 example_descriptor ''a.txt'',
           CallReloaded 11 0 example_descriptor ''a.txt''])"
  by (simp add: ReloadResource_def Let_def example_canonical example_loaded_sels
      example_world2_def example_world_sels resource_type_at_def example_txt_type_def
      example_descriptor_sels LoadResource_def LoadResource_archive_def LoadResource_file_def
      memcpy_def example_observed_def)

text \<open>
  C5, as the code has it. Let observers be registered and unregistered, in a factory with
  reload support, by any history of calls, and let \<open>ReloadResource\<close> return. If the result
  is not \<open>RELOAD_RESULT_OK\<close>, no observer is called. If it is, the events end with the call
  of the recreate function followed by one call for every pair of the callback array, in
  the order of the array, each with the interned descriptor and the name the caller
  passed; no observer is called before. The array holds the registered observers, each as
  often as it is registered and not unregistered since (a registration beyond 16 is
  dropped). Its order is the order of registration as long as no observer was
  unregistered; \<open>UnregisterResourceReloadedCallback\<close> moves the last pair into the place
  of the one it removes.
\<close>

theorem ReloadResource_notifies_observers:
  assumes init: "m_ResourceReloadedCallbacks factory0 = Some []"
    and ops: "m_ResourceReloadedCallbacks factory =
                m_ResourceReloadedCallbacks (apply_observer_ops factory0 ops)"
    and reload: "ReloadResource w factory name = Inr (result, out_descriptor, factory', ev)"
  shows "(result \<noteq> RELOAD_RESULT_OK \<longrightarrow> filter is_CallReloaded ev = [])
       \<and> (result = RELOAD_RESULT_OK \<longrightarrow>
           (\<exists>pairs rd ev0 fn context content.
              m_ResourceReloadedCallbacks factory = Some pairs \<and> out_descriptor = Some rd
            \<and> ev = ev0 @ CallRecreate fn context content rd name #
                   map (\<lambda>pair. CallReloaded (m_Callback pair) (m_UserData pair) rd name) pairs
            \<and> filter is_CallReloaded (ev0 @ [CallRecreate fn context content rd name]) = []
            \<and> mset pairs = mset (registered_in_order ops [])
            \<and> (\<not> list_ex is_Unregister ops \<longrightarrow> pairs = registered_in_order ops [])))"
proof -
  from apply_observer_ops_mset [OF init, of "[]" ops] ops obtain pairs where
    pairs: "m_ResourceReloadedCallbacks factory = Some pairs"
    and ms: "mset pairs = mset (registered_in_order ops [])"
    by (auto simp: MAX_CALLBACKS_def)
  have ord: "pairs = registered_in_order ops []" if "\<not> list_ex is_Unregister ops"
    using apply_observer_ops_order [OF init _ that] ops pairs by (simp add: MAX_CALLBACKS_def)
  from ReloadResource_cases [OF reload] obtain ev0 rest where
    ev: "ev = ev0 @ rest" and ev0: "\<forall>e \<in> set ev0. is_load_event e"
    and rest: "rest = [] \<and> result \<noteq> RELOAD_RESULT_OK \<or>
             (\<exists>rd resource_type content.
                out_descriptor = Some rd \<and>
                resource_type_at factory (m_ResourceType rd) = Some resource_type \<and>
                rest = CallRecreate (m_RecreateFunction resource_type) (m_Context resource_type)
                         content rd name #
                       (if result = RELOAD_RESULT_OK
                        then (case m_ResourceReloadedCallbacks factory of
                                None \<Rightarrow> [] | Some pairs \<Rightarrow> notify_reloaded pairs rd name)
                        else []))"
    by blast
  note no0 = load_events_no_reloaded [OF ev0]
  have fail: "filter is_CallReloaded ev = []" if "result \<noteq> RELOAD_RESULT_OK"
    using rest that ev no0 by auto
  have succeed: "\<exists>pairs rd ev0 fn context content.
              m_ResourceReloadedCallbacks factory = Some pairs \<and> out_descriptor = Some rd
            \<and> ev = ev0 @ CallRecreate fn context content rd name #
                   map (\<lambda>pair. CallReloaded (m_Callback pair) (m_UserData pair) rd name) pairs
            \<and> filter is_CallReloaded (ev0 @ [CallRecreate fn context content rd name]) = []
            \<and> mset pairs = mset (registered_in_order ops [])
            \<and> (\<not> list_ex is_Unregister ops \<longrightarrow> pairs = registered_in_order ops [])"
    if ok: "result = RELOAD_RESULT_OK"
  proof -
    from rest ok obtain rd and rt :: SResourceType and content where
      od: "out_descriptor = Some rd"
      and r: "rest = CallRecreate (m_RecreateFunction rt) (m_Context rt) content rd name #
                notify_reloaded pairs rd name"
      using pairs by auto
    have "ev = ev0 @ CallRecreate (m_RecreateFunction rt) (m_Context rt) content rd name #
                   map (\<lambda>pair. CallReloaded (m_Callback pair) (m_UserData pair) rd name) pairs"
      using ev r by (simp add: notify_reloaded_map)
    moreover have "filter is_CallReloaded
        (ev0 @ [CallRecreate (m_RecreateFunction rt) (m_Context rt) content rd name]) = []"
      using no0 by simp
    ultimately show ?thesis using pairs od ms ord by blast
  qed
  from fail succeed show ?thesis by blast
qed

theorem ReloadResource_notifies_observers_witness:
  "m_ResourceReloadedCallbacks example_loaded = Some []
   \<and> m_ResourceReloadedCallbacks example_observed =
       m_ResourceReloadedCallbacks (apply_observer_ops example_loaded example_observer_ops)
   \<and> ReloadResource example_world2 example_observed ''a.txt'' =
     Inr (RELOAD_RESULT_OK, Some example_descriptor,
          example_observed\<lparr>m_StreamBuffer := ''world'' @ [CHR 0x00, CHR 0x00, CHR 0x00, CHR 0x00]\<rparr>,
          [FileOpen ''/tmp/data/a.txt'',
           CallRecreate 3 7 ''world'' example_descriptor ''a.txt'',
           CallReloaded 12 0 example_descriptor ''a.txt'',
           CallReloaded 11 0 example_descriptor ''a.txt''])
   \<and> (\<exists>pairs rd ev0 fn context content.
        m_ResourceReloadedCallbacks example_observed = Some pairs
      \<and> Some example_descriptor = Some rd
      \<and> [FileOpen ''/tmp/data/a.txt'',
           CallRecreate 3 7 ''world'' example_descriptor ''a.txt'',
           CallReloaded 12 0 example_descriptor ''a.txt'',
           CallReloaded 11 0 example_descriptor ''a.txt''] =
          ev0 @ CallRecreate fn context content rd ''a.txt'' #
            map (\<lambda>pair. CallReloaded (m_Callback pair) (m_UserData pair) rd ''a.txt'') pairs
      \<and> mset pairs = mset (registered_in_order example_observer_ops []))"
proof -
  have a: "m_ResourceReloadedCallbacks example_loaded = Some []"
    by (simp add: example_loaded_sels)
  have b: "m_ResourceReloadedCallbacks example_observed =
       m_ResourceReloadedCallbacks (apply_observer_ops example_loaded example_observer_ops)"
    by (simp only: example_observed_ops)
  note c = example_observed_reload
  from ReloadResource_notifies_observers [OF a b c]
  have "\<exists>pairs rd ev0 fn context content.
        m_ResourceReloadedCallbacks example_observed = Some pairs
      \<and> Some example_descriptor = Some rd
      \<and> [FileOpen ''/tmp/data/a.txt'',
           CallRecreate 3 7 ''world'' example_descriptor ''a.txt'',
           CallReloaded 12 0 example_descriptor ''a.txt'',
           CallReloaded 11 0 example_descriptor ''a.txt''] =
          ev0 @ CallRecreate fn context content rd ''a.txt'' #
            map (\<lambda>pair. CallReloaded (m_Callback pair) (m_UserData pair) rd ''a.txt'') pairs
      \<and> mset pairs = mset (registered_in_order example_observer_ops [])"
    by blast
  with a b c show ?thesis by (intro conjI)
qed

text \<open>The claim as stated fails after an unregistration: observers 10, 11 and 12 are
  registered in this order and 10 is unregistered; in registration order the remaining
  two are 11, 12, and the reload calls 12 before 11.\<close>

theorem ReloadResource_observer_order_counterexample:
  "registered_in_order example_observer_ops [] =
     [\<lparr>m_Callback = 11, m_UserData = 0\<rparr>, \<lparr>m_Callback = 12, m_UserData = 0\<rparr>]
   \<and> ReloadResource example_world2
       (apply_observer_ops example_loaded example_observer_ops) ''a.txt'' =
     Inr (RELOAD_RESULT_OK, Some example_descriptor,
          example_observed\<lparr>m_StreamBuffer := ''world'' @ [CHR 0x00, CHR 0x00, CHR 0x00, CHR 0x00]\<rparr>,
          [FileOpen ''/tmp/data/a.txt'',
           CallRecreate 3 7 ''world'' example_descriptor ''a.txt'',
           CallReloaded 12 0 example_descriptor ''a.txt'',
           CallReloaded 11 0 example_descriptor ''a.txt''])"
  using example_registered_in_order example_observed_reload
  by (simp only: example_observed_ops simp_thms)

end
